theory Spec2Isabelle
  imports Complex_Main "HOL-Library.Char_ord" "HOL-Library.List_Lexorder"
begin

section \<open>Floating-point numbers\<close>

text \<open>
  A Python \<open>float\<close> is an IEEE 754 binary64 number: a finite value (given here by the real
  number it denotes), an infinity or NaN. The sign of zero is not kept: no operation of the
  monitor tells the two zeros apart.
\<close>

datatype double = Finite real | PlusInf | MinusInf | NaN

text \<open>Rounding to the nearest integer, a tie going to the even one.\<close>

definition round_half_even :: "real \<Rightarrow> int" where
  "round_half_even x =
     (let f = \<lfloor>x\<rfloor>; d = x - of_int f
      in if d < 1 / 2 then f else if d > 1 / 2 then f + 1 else if even f then f else f + 1)"

definition pow2 :: "int \<Rightarrow> real" where
  "pow2 e = (if 0 \<le> e then 2 ^ nat e else 1 / 2 ^ nat (- e))"

text \<open>
  The exponent of the binade of \<open>x\<close>, not below that of the subnormal numbers, and the
  correctly rounded result of an operation whose exact value is \<open>x\<close>: the nearest multiple
  of the spacing \<open>2 ^ (binade x - 52)\<close>, a tie going to the even multiple, and an infinity
  when that multiple is \<open>2 ^ 1024\<close> or beyond.
\<close>

definition binade :: "real \<Rightarrow> int" where
  "binade x = max \<lfloor>log 2 \<bar>x\<bar>\<rfloor> (- 1022)"

definition rnd :: "real \<Rightarrow> double" where
  "rnd x =
     (if x = 0 then Finite 0
      else
        (let u = pow2 (binade x - 52);
             q = of_int (round_half_even (x / u)) * u
         in if 2 ^ 1024 \<le> \<bar>q\<bar> then (if 0 < x then PlusInf else MinusInf) else Finite q))"

text \<open>\<open>a + b\<close> and \<open>a * b\<close> on floats.\<close>

fun fadd :: "double \<Rightarrow> double \<Rightarrow> double" where
  "fadd NaN b = NaN"
| "fadd a NaN = NaN"
| "fadd PlusInf MinusInf = NaN"
| "fadd MinusInf PlusInf = NaN"
| "fadd PlusInf b = PlusInf"
| "fadd a PlusInf = PlusInf"
| "fadd MinusInf b = MinusInf"
| "fadd a MinusInf = MinusInf"
| "fadd (Finite x) (Finite y) = rnd (x + y)"


text \<open>\<open>abs(a)\<close>\<close>

fun fabs :: "double \<Rightarrow> double" where
  "fabs (Finite x) = Finite \<bar>x\<bar>"
| "fabs PlusInf = PlusInf"
| "fabs MinusInf = PlusInf"
| "fabs NaN = NaN"

text \<open>\<open>a < b\<close> and \<open>a == b\<close> on floats: every comparison with NaN is false.\<close>

fun dless :: "double \<Rightarrow> double \<Rightarrow> bool" where
  "dless NaN b = False"
| "dless a NaN = False"
| "dless (Finite x) (Finite y) = (x < y)"
| "dless (Finite x) PlusInf = True"
| "dless (Finite x) MinusInf = False"
| "dless PlusInf b = False"
| "dless MinusInf MinusInf = False"
| "dless MinusInf b = True"

fun deq :: "double \<Rightarrow> double \<Rightarrow> bool" where
  "deq (Finite x) (Finite y) = (x = y)"
| "deq PlusInf PlusInf = True"
| "deq MinusInf MinusInf = True"
| "deq a b = False"


text \<open>
  \<open>round(x, 1)\<close> on a float: NaN and the infinities are returned as they are; a finite
  value is rounded to the nearest multiple of one tenth, a tie going to the even digit,
  and the float nearest to that decimal is returned.
\<close>

fun py_round1 :: "double \<Rightarrow> double" where
  "py_round1 (Finite x) = rnd (of_int (round_half_even (x * 10)) / 10)"
| "py_round1 a = a"

section \<open>Python values and the built-in operations the monitor relies on\<close>

text \<open>
  The monitor keeps its configuration as the object \<open>json.load\<close> returned, so thresholds
  are dynamically typed: a bound may be a number, a boolean, a string, a list, an object
  or \<open>null\<close>. \<open>PNum x\<close> is a finite number, an \<open>int\<close> or a \<open>float\<close>, of value \<open>x\<close>: comparisons,
  \<open>isinstance\<close> and the conversions below depend on the value only. \<open>PNaN\<close> and \<open>PInf\<close> are
  the floats that \<open>json.load\<close> reads from \<open>NaN\<close>, \<open>Infinity\<close> (\<open>PInf True\<close>) and \<open>-Infinity\<close>.
  A dict is an association list read with \<open>map_of\<close>.
\<close>

datatype pyval =
    PNone
  | PBool bool
  | PNum real
  | PNaN
  | PInf bool
  | PStr string
  | PList "pyval list"
  | PDict "(string \<times> pyval) list"

text \<open>A float as a Python value.\<close>

fun to_py :: "double \<Rightarrow> pyval" where
  "to_py (Finite x) = PNum x"
| "to_py PlusInf = PInf True"
| "to_py MinusInf = PInf False"
| "to_py NaN = PNaN"

text \<open>The messages of \<open>ConfigError\<close>, one constructor per f-string of the loader.\<close>

datatype config_error =
    Cannot_read_config string string
  | Missing_section string
  | Must_have_min_and_max string
  | Invalid_range string
  | Orientation_must_include_axes
  | Invalid_orientation_range string

datatype exn =
    ConfigError config_error
  | TypeError
  | KeyError string
  | AttributeError
  | ValueError
  | OverflowError
  | NameError string
  | OSError string
  | DatabaseError string
  | KeyboardInterrupt

text \<open>\<open>KeyboardInterrupt\<close> derives from \<open>BaseException\<close>, every other one from \<open>Exception\<close>.\<close>

fun is_Exception :: "exn \<Rightarrow> bool" where
  "is_Exception KeyboardInterrupt = False"
| "is_Exception _ = True"

definition bindE :: "exn + 'a \<Rightarrow> ('a \<Rightarrow> exn + 'b) \<Rightarrow> exn + 'b" where
  "bindE m f = (case m of Inl e \<Rightarrow> Inl e | Inr x \<Rightarrow> f x)"


text \<open>
  \<open>time.sleep(secs)\<close>: the exception it raises, if any. It raises \<open>OverflowError\<close> when the
  length is beyond what the clock type of the platform holds (\<open>limit\<close> seconds, a parameter
  of the model), and \<open>ValueError\<close> for a negative length and for NaN. An \<open>int\<close> argument is
  taken by its exact value.
\<close>

fun sleep_error :: "real \<Rightarrow> double \<Rightarrow> exn option" where
  "sleep_error limit (Finite x) =
     (if limit < \<bar>x\<bar> then Some OverflowError else if x < 0 then Some ValueError else None)"
| "sleep_error limit NaN = Some ValueError"
| "sleep_error limit a = Some OverflowError"

text \<open>\<open>bool\<close> is a subclass of \<open>int\<close>: \<open>False\<close> and \<open>True\<close> count as 0 and 1.\<close>

fun num_of :: "pyval \<Rightarrow> double option" where
  "num_of (PBool b) = Some (Finite (if b then 1 else 0))"
| "num_of (PNum x) = Some (Finite x)"
| "num_of PNaN = Some NaN"
| "num_of (PInf positive) = Some (if positive then PlusInf else MinusInf)"
| "num_of _ = None"

text \<open>\<open>isinstance(x, (int, float))\<close>\<close>

definition is_int_or_float :: "pyval \<Rightarrow> bool" where
  "is_int_or_float x = (num_of x \<noteq> None)"

text \<open>
  Equality of two items as containers test it (list comparison, \<open>in\<close> on a list, dict
  equality): the same object, or \<open>x == y\<close>. Every NaN of a loaded document is the one
  object the \<open>json\<close> module keeps for it, so it counts as equal to itself here.
\<close>

function (sequential) py_eq :: "pyval \<Rightarrow> pyval \<Rightarrow> bool" where
  "py_eq PNone PNone = True"
| "py_eq PNaN PNaN = True"
| "py_eq (PStr a) (PStr b) = (a = b)"
| "py_eq (PList xs) (PList ys) = list_all2 py_eq xs ys"
| "py_eq (PDict a) (PDict b) =
     (set (map fst a) = set (map fst b) \<and>
      list_all (\<lambda>k. case map_of a k of None \<Rightarrow> False
                 | Some v \<Rightarrow> (case map_of b k of None \<Rightarrow> False | Some w \<Rightarrow> py_eq v w))
        (map fst a))"
| "py_eq x y =
     (case num_of x of None \<Rightarrow> False
      | Some a \<Rightarrow> (case num_of y of None \<Rightarrow> False | Some b \<Rightarrow> deq a b))"
  by pat_completeness auto
termination
proof (relation "measure (\<lambda>(x, y). size x)", goal_cases)
  case 1
  show ?case by simp
next
  case (2 xs ys x y)
  then show ?case
    by (simp add: less_Suc_eq_le size_list_estimation')
next
  case (3 a b k v w)
  from 3 have "(k, v) \<in> set a" by (simp add: map_of_SomeD)
  then have "size v \<le> size_list (size_prod (\<lambda>x. 0) size) a"
    by (rule size_list_estimation') simp
  then show ?case by simp
qed

text \<open>
  The ordering comparisons \<open><\<close>, \<open><=\<close>, \<open>>\<close>, \<open>>=\<close>. Numbers compare by value (an \<open>int\<close> and
  a \<open>float\<close> exactly, and falsely whenever one side is NaN), strings and lists
  lexicographically (a list by its first pair of unequal items, else by length); every
  other pairing raises \<open>TypeError\<close>.
\<close>

datatype cmp = Lt | Le | Gt | Ge

fun cmp_ord :: "cmp \<Rightarrow> 'a::linorder \<Rightarrow> 'a \<Rightarrow> bool" where
  "cmp_ord Lt a b = (a < b)"
| "cmp_ord Le a b = (a \<le> b)"
| "cmp_ord Gt a b = (a > b)"
| "cmp_ord Ge a b = (a \<ge> b)"

fun dcmp :: "cmp \<Rightarrow> double \<Rightarrow> double \<Rightarrow> bool" where
  "dcmp Lt a b = dless a b"
| "dcmp Le a b = (dless a b \<or> deq a b)"
| "dcmp Gt a b = dless b a"
| "dcmp Ge a b = (dless b a \<or> deq a b)"

fun py_cmp :: "cmp \<Rightarrow> pyval \<Rightarrow> pyval \<Rightarrow> exn + bool" where
  "py_cmp c (PStr a) (PStr b) = Inr (cmp_ord c a b)"
| "py_cmp c (PList []) (PList ys) = Inr (cmp_ord c 0 (length ys))"
| "py_cmp c (PList (x # xs)) (PList []) = Inr (cmp_ord c (Suc (length xs)) 0)"
| "py_cmp c (PList (x # xs)) (PList (y # ys)) =
     (if py_eq x y then py_cmp c (PList xs) (PList ys) else py_cmp c x y)"
| "py_cmp c x y =
     (case num_of x of None \<Rightarrow> Inl TypeError
      | Some a \<Rightarrow> (case num_of y of None \<Rightarrow> Inl TypeError | Some b \<Rightarrow> Inr (dcmp c a b)))"

text \<open>\<open>key in obj\<close> for a string key: dict membership, list membership, substring test.\<close>

fun substring :: "string \<Rightarrow> string \<Rightarrow> bool" where
  "substring k [] = (k = [])"
| "substring k (c # cs) = (take (length k) (c # cs) = k \<or> substring k cs)"

fun py_in :: "string \<Rightarrow> pyval \<Rightarrow> exn + bool" where
  "py_in k (PDict kvs) = Inr (map_of kvs k \<noteq> None)"
| "py_in k (PList xs) = Inr (list_ex (py_eq (PStr k)) xs)"
| "py_in k (PStr s) = Inr (substring k s)"
| "py_in k _ = Inl TypeError"

text \<open>\<open>obj[key]\<close> for a string key: only a dict can be subscripted by a string.\<close>

fun py_getitem :: "pyval \<Rightarrow> string \<Rightarrow> exn + pyval" where
  "py_getitem (PDict kvs) k = (case map_of kvs k of None \<Rightarrow> Inl (KeyError k) | Some v \<Rightarrow> Inr v)"
| "py_getitem _ k = Inl TypeError"

text \<open>\<open>all(k in obj for k in keys)\<close>: stops at the first key that is absent.\<close>

fun all_in :: "string list \<Rightarrow> pyval \<Rightarrow> exn + bool" where
  "all_in [] obj = Inr True"
| "all_in (k # ks) obj = bindE (py_in k obj) (\<lambda>b. if b then all_in ks obj else Inr False)"

section \<open>Classification (TaskA/SensorMonitor.py)\<close>

text \<open>
  \<^verbatim>\<open>
  def _bucket(self, v, lo, hi):
      if v < lo:  return "Low"
      if v > hi:  return "High"
      return "Comfortable"
  \<close>
\<close>

definition bucket :: "pyval \<Rightarrow> pyval \<Rightarrow> pyval \<Rightarrow> exn + string" where
  "bucket v lo hi =
     bindE (py_cmp Lt v lo) (\<lambda>low.
       if low then Inr ''Low''
       else bindE (py_cmp Gt v hi) (\<lambda>high.
         if high then Inr ''High'' else Inr ''Comfortable''))"

text \<open>
  A reading is the dict \<open>_read_sensors\<close> returns (six floats under fixed keys); the labels
  are the dict \<open>_classify\<close> returns.
\<close>

record reading =
  r_temperature :: double
  r_humidity :: double
  r_pressure :: double
  r_pitch :: double
  r_roll :: double
  r_yaw :: double

record classes =
  c_temperature :: string
  c_humidity :: string
  c_pressure :: string
  c_orientation :: string

definition get2 :: "pyval \<Rightarrow> string \<Rightarrow> string \<Rightarrow> exn + pyval" where
  "get2 cfg a b = bindE (py_getitem cfg a) (\<lambda>x. py_getitem x b)"

definition get3 :: "pyval \<Rightarrow> string \<Rightarrow> string \<Rightarrow> string \<Rightarrow> exn + pyval" where
  "get3 cfg a b c = bindE (get2 cfg a b) (\<lambda>x. py_getitem x c)"

text \<open>
  One conjunct of \<open>aligned\<close>:
  \<^verbatim>\<open>cfg["orientation"][axis]["min"] <= r[axis] <= cfg["orientation"][axis]["max"]\<close>.
  The upper bound is looked up only when the lower test holds.
\<close>

definition axis_within :: "pyval \<Rightarrow> string \<Rightarrow> double \<Rightarrow> exn + bool" where
  "axis_within cfg axis x =
     bindE (get3 cfg ''orientation'' axis ''min'') (\<lambda>lo.
       bindE (py_cmp Le lo (to_py x)) (\<lambda>b.
         if b then bindE (get3 cfg ''orientation'' axis ''max'') (\<lambda>hi. py_cmp Le (to_py x) hi)
         else Inr False))"

text \<open>
  \<^verbatim>\<open>
  def _classify(self, r):
      cfg = self.config
      temp_c = self._bucket(r["temperature"], cfg["temperature"]["min"], cfg["temperature"]["max"])
      hum_c  = self._bucket(r["humidity"],    cfg["humidity"]["min"],    cfg["humidity"]["max"])
      prs_c  = self._bucket(r["pressure"],    cfg["pressure"]["min"],    cfg["pressure"]["max"])
      aligned = (
          cfg["orientation"]["pitch"]["min"] <= r["pitch"] <= cfg["orientation"]["pitch"]["max"] and
          cfg["orientation"]["roll"]["min"]  <= r["roll"]  <= cfg["orientation"]["roll"]["max"]  and
          cfg["orientation"]["yaw"]["min"]   <= r["yaw"]   <= cfg["orientation"]["yaw"]["max"]
      )
      ori_c = "Aligned" if aligned else "Tilted"
      return {"temperature": temp_c, "humidity": hum_c, "pressure": prs_c, "orientation": ori_c}
  \<close>
\<close>

definition bucket_of :: "pyval \<Rightarrow> string \<Rightarrow> double \<Rightarrow> exn + string" where
  "bucket_of cfg name x =
     bindE (get2 cfg name ''min'') (\<lambda>lo.
       bindE (get2 cfg name ''max'') (\<lambda>hi. bucket (to_py x) lo hi))"

definition aligned :: "pyval \<Rightarrow> reading \<Rightarrow> exn + bool" where
  "aligned cfg r =
     bindE (axis_within cfg ''pitch'' (r_pitch r)) (\<lambda>p.
       if p then
         bindE (axis_within cfg ''roll'' (r_roll r)) (\<lambda>q.
           if q then axis_within cfg ''yaw'' (r_yaw r) else Inr False)
       else Inr False)"

definition classify :: "pyval \<Rightarrow> reading \<Rightarrow> exn + classes" where
  "classify cfg r =
     bindE (bucket_of cfg ''temperature'' (r_temperature r)) (\<lambda>temp_c.
     bindE (bucket_of cfg ''humidity'' (r_humidity r)) (\<lambda>hum_c.
     bindE (bucket_of cfg ''pressure'' (r_pressure r)) (\<lambda>prs_c.
     bindE (aligned cfg r) (\<lambda>al.
       Inr \<lparr>c_temperature = temp_c, c_humidity = hum_c, c_pressure = prs_c,
            c_orientation = (if al then ''Aligned'' else ''Tilted'')\<rparr>))))"

section \<open>Configuration loading (TaskA/SensorMonitor.py)\<close>

text \<open>
  \<^verbatim>\<open>
  for key in ("temperature", "humidity", "pressure", "orientation"):
      if key not in cfg:
          raise ConfigError(f"Missing '{key}' section in config.")
  \<close>
\<close>

fun check_sections :: "string list \<Rightarrow> pyval \<Rightarrow> exn + unit" where
  "check_sections [] cfg = Inr ()"
| "check_sections (key # keys) cfg =
     bindE (py_in key cfg) (\<lambda>present.
       if \<not> present then Inl (ConfigError (Missing_section key))
       else check_sections keys cfg)"

text \<open>
  \<^verbatim>\<open>
  def check_env_range(name):
      if name not in cfg or not all(k in cfg[name] for k in ("min", "max")):
          raise ConfigError(f"'{name}' must have min and max.")
      lo, hi = cfg[name]["min"], cfg[name]["max"]
      if not isinstance(lo, (int,float)) or not isinstance(hi, (int,float)) or lo >= hi:
          raise ConfigError(f"Invalid range for '{name}': min < max required.")
  \<close>
\<close>

definition check_env_range :: "pyval \<Rightarrow> string \<Rightarrow> exn + unit" where
  "check_env_range cfg name =
     bindE (py_in name cfg) (\<lambda>present.
     bindE (if \<not> present then Inr True
            else bindE (py_getitem cfg name) (\<lambda>sec.
                 bindE (all_in [''min'', ''max''] sec) (\<lambda>a. Inr (\<not> a)))) (\<lambda>incomplete.
       if incomplete then Inl (ConfigError (Must_have_min_and_max name))
       else
         bindE (get2 cfg name ''min'') (\<lambda>lo.
         bindE (get2 cfg name ''max'') (\<lambda>hi.
           if \<not> is_int_or_float lo \<or> \<not> is_int_or_float hi
           then Inl (ConfigError (Invalid_range name))
           else bindE (py_cmp Ge lo hi) (\<lambda>ge.
             if ge then Inl (ConfigError (Invalid_range name)) else Inr ())))))"

text \<open>
  \<^verbatim>\<open>
  for axis in ("pitch","roll","yaw"):
      ax = cfg["orientation"][axis]
      if not all(k in ax for k in ("min","max")) or ax["min"] >= ax["max"]:
          raise ConfigError(f"Invalid orientation range for {axis}.")
  \<close>
\<close>

fun check_axes :: "pyval \<Rightarrow> string list \<Rightarrow> exn + unit" where
  "check_axes cfg [] = Inr ()"
| "check_axes cfg (axis # axes) =
     bindE (get2 cfg ''orientation'' axis) (\<lambda>ax.
     bindE (all_in [''min'', ''max''] ax) (\<lambda>a.
     bindE (if \<not> a then Inr True
            else bindE (py_getitem ax ''min'') (\<lambda>lo.
                 bindE (py_getitem ax ''max'') (\<lambda>hi. py_cmp Ge lo hi))) (\<lambda>bad.
       if bad then Inl (ConfigError (Invalid_orientation_range axis))
       else check_axes cfg axes)))"

text \<open>
  The object \<open>obj\<close> after the statement \<open>obj.setdefault(key, d)\<close>, whose own value the
  loader drops; \<open>setdefault\<close> is a method of dicts only.
\<close>

fun py_setdefault :: "pyval \<Rightarrow> string \<Rightarrow> pyval \<Rightarrow> exn + pyval" where
  "py_setdefault (PDict kvs) k d =
     Inr (case map_of kvs k of None \<Rightarrow> PDict (kvs @ [(k, d)]) | Some v \<Rightarrow> PDict kvs)"
| "py_setdefault _ k d = Inl AttributeError"

text \<open>
  \<open>_load_and_validate_config(path)\<close>. The file system and the JSON parser are outside the
  program: their joint result is the argument \<open>file\<close>, \<open>Inl e\<close> when \<open>open\<close> or \<open>json.load\<close>
  raised an exception printing as \<open>e\<close>, \<open>Inr cfg\<close> for the parsed document. Only that first
  step runs inside the \<open>try\<close>; an exception of a later step leaves the function as it is.
\<close>

definition load_and_validate_config :: "string \<Rightarrow> string + pyval \<Rightarrow> exn + pyval" where
  "load_and_validate_config path file =
     (case file of
        Inl e \<Rightarrow> Inl (ConfigError (Cannot_read_config path e))
      | Inr cfg \<Rightarrow>
          bindE (check_sections [''temperature'', ''humidity'', ''pressure'', ''orientation''] cfg)
            (\<lambda>_.
          bindE (check_env_range cfg ''temperature'') (\<lambda>_.
          bindE (check_env_range cfg ''humidity'') (\<lambda>_.
          bindE (check_env_range cfg ''pressure'') (\<lambda>_.
          bindE (py_in ''orientation'' cfg) (\<lambda>present.
          bindE (if \<not> present then Inr True
                 else bindE (py_getitem cfg ''orientation'') (\<lambda>ori.
                      bindE (all_in [''pitch'', ''roll'', ''yaw''] ori) (\<lambda>a. Inr (\<not> a))))
            (\<lambda>incomplete.
            if incomplete then Inl (ConfigError Orientation_must_include_axes)
            else
              bindE (check_axes cfg [''pitch'', ''roll'', ''yaw'']) (\<lambda>_.
                py_setdefault cfg ''meta'' (PDict [])))))))))"

section \<open>The monitor object (TaskA/SensorMonitor.py)\<close>

text \<open>
  What the LED matrix is asked to show. The text of a message is kept as the f-string that
  builds it, with its arguments: \<open>Msg_T x\<close> is \<open>f"T:{x:.1f}"\<close>, \<open>Msg_H x\<close> is \<open>f"H:{x:.1f}"\<close>,
  \<open>Msg_P x\<close> is \<open>f"P:{x:.0f}"\<close> and \<open>Msg_PRY p r y\<close> is \<open>f"P:{p:.0f}/R:{r:.0f}/Y:{y:.0f}"\<close>.
\<close>

type_synonym colour = "nat \<times> nat \<times> nat"

definition GREEN :: colour where "GREEN = (0, 255, 0)"
definition RED :: colour where "RED = (255, 0, 0)"
definition BLUE :: colour where "BLUE = (0, 0, 255)"
definition AMBER :: colour where "AMBER = (255, 191, 0)"
definition WHITE :: colour where "WHITE = (255, 255, 255)"

datatype led_text =
    Literal string
  | Msg_T double
  | Msg_H double
  | Msg_P double
  | Msg_PRY double double double

datatype led_event = Show_message led_text colour | Clear

text \<open>The \<open>print\<close> calls, one constructor per f-string.\<close>

datatype printed =
    Print_config_error config_error
  | Print_startup_error exn
  | Print_exiting
  | Print_sensor_readings reading
  | Print_classifications classes

text \<open>A row of \<open>sensor_logs\<close>: the reading, its labels, the UTC timestamp text.\<close>

type_synonym log_row = "reading \<times> classes \<times> string"

record monitor =
  config :: pyval
  temp_offset :: double
  poll_seconds :: int
  rotate_seconds :: int
  paused :: bool
  latest :: "reading option"
  latest_classes :: "classes option"
  sensor_logs :: "log_row list"
  conn_open :: bool
  stop_is_set :: bool
  led :: "led_event list"
  stdout :: "printed list"

subsection \<open>Joystick\<close>

datatype stick_action = ACTION_PRESSED | ACTION_RELEASED | ACTION_HELD

record input_event =
  direction :: string
  action :: stick_action

text \<open>
  \<^verbatim>\<open>
  def _on_middle_pressed(self, event):
      if event.action == ACTION_PRESSED:
          self.paused = not self.paused
          self.sense.show_message("PAUSE" if self.paused else "RUN", scroll_speed=0.06, text_colour=WHITE)
  \<close>
\<close>

definition on_middle_pressed :: "monitor \<Rightarrow> input_event \<Rightarrow> monitor" where
  "on_middle_pressed m event =
     (if action event = ACTION_PRESSED then
        (let m1 = m\<lparr>paused := \<not> paused m\<rparr>
         in m1\<lparr>led := led m1 @
              [Show_message (Literal (if paused m1 then ''PAUSE'' else ''RUN'')) WHITE]\<rparr>)
      else m)"

subsection \<open>Sensors, classify, log\<close>

text \<open>What the four getters of the Sense HAT return on one sampling tick.\<close>

record raw =
  raw_temperature :: double
  raw_humidity :: double
  raw_pressure :: double
  raw_pitch :: double
  raw_roll :: double
  raw_yaw :: double

text \<open>
  \<^verbatim>\<open>
  def _read_sensors(self):
      t = self.sense.get_temperature() + self.temp_offset
      h = self.sense.get_humidity()
      p = self.sense.get_pressure()
      o = self.sense.get_orientation()
      return {"temperature": round(t, 1), "humidity": round(h, 1), "pressure": round(p, 1),
              "pitch": round(o["pitch"], 1), "roll": round(o["roll"], 1), "yaw": round(o["yaw"], 1)}
  \<close>
\<close>

definition read_sensors :: "monitor \<Rightarrow> raw \<Rightarrow> reading" where
  "read_sensors m s =
     (let t = fadd (raw_temperature s) (temp_offset m);
          h = raw_humidity s;
          p = raw_pressure s
      in \<lparr>r_temperature = py_round1 t, r_humidity = py_round1 h, r_pressure = py_round1 p,
          r_pitch = py_round1 (raw_pitch s), r_roll = py_round1 (raw_roll s),
          r_yaw = py_round1 (raw_yaw s)\<rparr>)"

text \<open>
  \<open>_log(r, c)\<close>: one INSERT and a commit. \<open>failure\<close> is the exception sqlite3 raises on this
  call, if any; the row is in the table only when the call returns.
\<close>

definition log_db :: "monitor \<Rightarrow> reading \<Rightarrow> classes \<Rightarrow> string \<Rightarrow> exn option \<Rightarrow> exn + monitor" where
  "log_db m r c utcnow failure =
     (case failure of
        Some e \<Rightarrow> Inl e
      | None \<Rightarrow> Inr (m\<lparr>sensor_logs := sensor_logs m @ [(r, c, utcnow)]\<rparr>))"

subsection \<open>LED display\<close>

text \<open>
  \<^verbatim>\<open>
  def _color_for(self, key, label):
      if key == "orientation":
          return GREEN if label == "Aligned" else AMBER
      if label == "Comfortable": return GREEN
      if label == "High":        return RED
      if label == "Low":         return BLUE
      return WHITE
  \<close>
\<close>

definition color_for :: "string \<Rightarrow> string \<Rightarrow> colour" where
  "color_for key label =
     (if key = ''orientation'' then (if label = ''Aligned'' then GREEN else AMBER)
      else if label = ''Comfortable'' then GREEN
      else if label = ''High'' then RED
      else if label = ''Low'' then BLUE
      else WHITE)"

definition modes :: "string list" where
  "modes = [''temperature'', ''humidity'', ''pressure'', ''orientation'']"

text \<open>\<open>self._latest_classes[key]\<close>, for a key of \<open>modes\<close>.\<close>

definition class_at :: "classes \<Rightarrow> string \<Rightarrow> string" where
  "class_at c key =
     (if key = ''temperature'' then c_temperature c
      else if key = ''humidity'' then c_humidity c
      else if key = ''pressure'' then c_pressure c
      else c_orientation c)"

definition message_for :: "string \<Rightarrow> reading \<Rightarrow> led_text" where
  "message_for key r =
     (if key = ''temperature'' then Msg_T (r_temperature r)
      else if key = ''humidity'' then Msg_H (r_humidity r)
      else if key = ''pressure'' then Msg_P (r_pressure r)
      else Msg_PRY (r_pitch r) (r_roll r) (r_yaw r))"




subsection \<open>Main loop\<close>

text \<open>
  What the world supplies to one pass of the loop in \<open>run\<close>: the sensor values or the
  exception a getter raises, the exception of the database call if it fails, the clock, the
  longest sleep the platform accepts, the joystick events dispatched while the loop
  sleeps, and whether Ctrl-C arrives during the sleep.
\<close>

record tick_env =
  sensor :: "exn + raw"
  db_failure :: "exn option"
  utcnow :: string
  sleep_limit :: real
  stick :: "input_event list"
  interrupt :: bool

text \<open>
  \<^verbatim>\<open>
  if not self.paused:
      r = self._read_sensors()
      c = self._classify(r)
      self._latest, self._latest_classes = r, c
      self._log(r, c)
      print(f"Sensor readings: {r}")
      print(f"Classifications: {c}")
  \<close>
  The result carries the monitor as the statement that raised left it.
\<close>

definition sample :: "monitor \<Rightarrow> tick_env \<Rightarrow> exn option \<times> monitor" where
  "sample m env =
     (if \<not> paused m then
        (case sensor env of
           Inl e \<Rightarrow> (Some e, m)
         | Inr s \<Rightarrow>
             (let r = read_sensors m s in
              case classify (config m) r of
                Inl e \<Rightarrow> (Some e, m)
              | Inr c \<Rightarrow>
                  (let m1 = m\<lparr>latest := Some r, latest_classes := Some c\<rparr> in
                   case log_db m1 r c (utcnow env) (db_failure env) of
                     Inl e \<Rightarrow> (Some e, m1)
                   | Inr m2 \<Rightarrow>
                       (None, m2\<lparr>stdout := stdout m2 @
                          [Print_sensor_readings r, Print_classifications c]\<rparr>))))
      else (None, m))"

text \<open>
  \<^verbatim>\<open>
  def cleanup(self):
      self._stop.set()
      try: self.sense.clear()
      except Exception: pass
      try: self.conn.close()
      except Exception: pass
  \<close>
\<close>

definition cleanup :: "monitor \<Rightarrow> monitor" where
  "cleanup m = m\<lparr>stop_is_set := True, led := led m @ [Clear], conn_open := False\<rparr>"

text \<open>
  The loop of \<open>run\<close> over the passes the list describes; \<open>Looping\<close> when the list ends with
  the loop still running. Each pass ends in \<open>time.sleep(self.poll_seconds)\<close>, which raises
  at once for a length it does not accept.
\<close>

datatype loop_result = Looping | Loop_exit | Raised exn

fun run_loop :: "monitor \<Rightarrow> tick_env list \<Rightarrow> loop_result \<times> monitor" where
  "run_loop m [] = (if stop_is_set m then Loop_exit else Looping, m)"
| "run_loop m (env # envs) =
     (if stop_is_set m then (Loop_exit, m)
      else
        (case sample m env of
           (Some e, m1) \<Rightarrow> (Raised e, m1)
         | (None, m1) \<Rightarrow>
             (case sleep_error (sleep_limit env) (Finite (of_int (poll_seconds m1))) of
                Some e \<Rightarrow> (Raised e, m1)
              | None \<Rightarrow>
                  (let m2 = foldl on_middle_pressed m1 (stick env)
                   in if interrupt env then (Raised KeyboardInterrupt, m2)
                      else run_loop m2 envs))))"

text \<open>
  \<^verbatim>\<open>
  def run(self):
      try:
          while not self._stop.is_set(): ...
      finally:
          self.cleanup()
  \<close>
\<close>

definition run :: "monitor \<Rightarrow> tick_env list \<Rightarrow> loop_result \<times> monitor" where
  "run m envs =
     (case run_loop m envs of
        (Looping, m1) \<Rightarrow> (Looping, m1)
      | (res, m1) \<Rightarrow> (res, cleanup m1))"

subsection \<open>Construction\<close>

text \<open>\<open>d.get(key, default)\<close>: a method of dicts only.\<close>

fun py_get :: "pyval \<Rightarrow> string \<Rightarrow> pyval \<Rightarrow> exn + pyval" where
  "py_get (PDict kvs) k d = Inr (case map_of kvs k of None \<Rightarrow> d | Some v \<Rightarrow> v)"
| "py_get _ k d = Inl AttributeError"

text \<open>
  \<open>float(x)\<close> and \<open>int(x)\<close>. How the interpreter reads a number out of a string is a
  parameter (\<open>None\<close> where it raises \<open>ValueError\<close>). \<open>float\<close> of a number is the float
  nearest to its value (the value itself when it is a float already) and raises
  \<open>OverflowError\<close> for an \<open>int\<close> too large; \<open>int\<close> of a float truncates towards zero and
  raises for NaN and the infinities.
\<close>

fun py_float :: "(string \<Rightarrow> double option) \<Rightarrow> pyval \<Rightarrow> exn + double" where
  "py_float parse (PNum x) =
     (case rnd x of Finite y \<Rightarrow> Inr (Finite y) | _ \<Rightarrow> Inl OverflowError)"
| "py_float parse (PBool b) = Inr (Finite (if b then 1 else 0))"
| "py_float parse PNaN = Inr NaN"
| "py_float parse (PInf positive) = Inr (if positive then PlusInf else MinusInf)"
| "py_float parse (PStr s) = (case parse s of None \<Rightarrow> Inl ValueError | Some x \<Rightarrow> Inr x)"
| "py_float parse _ = Inl TypeError"

fun py_int :: "(string \<Rightarrow> int option) \<Rightarrow> pyval \<Rightarrow> exn + int" where
  "py_int parse (PNum x) = Inr (if 0 \<le> x then \<lfloor>x\<rfloor> else \<lceil>x\<rceil>)"
| "py_int parse (PBool b) = Inr (if b then 1 else 0)"
| "py_int parse PNaN = Inl ValueError"
| "py_int parse (PInf positive) = Inl OverflowError"
| "py_int parse (PStr s) = (case parse s of None \<Rightarrow> Inl ValueError | Some n \<Rightarrow> Inr n)"
| "py_int parse _ = Inl TypeError"

definition DB_PATH :: string where "DB_PATH = ''envirotrack.db''"
definition CONFIG_PATH :: string where "CONFIG_PATH = ''TaskA/enviro_config.json''"

text \<open>
  What the world supplies to \<open>SensorMonitor()\<close>: the exception \<open>SenseHat()\<close> raises, if any;
  the outcome of reading and parsing the configuration file; number parsing; the rows
  already in the database, or the exception \<open>sqlite3.connect\<close> or \<open>_init_db\<close> raises.
\<close>

record startup_env =
  sense_hat_failure :: "exn option"
  config_file :: "string + pyval"
  parse_float :: "string \<Rightarrow> double option"
  parse_int :: "string \<Rightarrow> int option"
  database :: "exn + log_row list"

text \<open>
  \<^verbatim>\<open>
  def __init__(self, config_path=CONFIG_PATH, db_path=DB_PATH):
      self.sense = SenseHat()
      self.config = self._load_and_validate_config(config_path)
      meta = self.config.get("meta", {})
      self.temp_offset   = float(meta.get("temperature_calibration_offset", -1.5))
      self.poll_seconds  = int(meta.get("poll_seconds", 10))
      self.rotate_seconds= int(meta.get("rotate_seconds", 5))
      self.paused = False
      self._latest = None
      self._latest_classes = None
      self.conn = sqlite3.connect(db_path, check_same_thread=False)
      self._init_db()
      ...
  \<close>
\<close>

definition init :: "startup_env \<Rightarrow> exn + monitor" where
  "init env =
     (case sense_hat_failure env of
        Some e \<Rightarrow> Inl e
      | None \<Rightarrow>
          bindE (load_and_validate_config CONFIG_PATH (config_file env)) (\<lambda>cfg.
          bindE (py_get cfg ''meta'' (PDict [])) (\<lambda>meta.
          bindE (py_get meta ''temperature_calibration_offset'' (PNum (- 1.5))) (\<lambda>a.
          bindE (py_float (parse_float env) a) (\<lambda>offset.
          bindE (py_get meta ''poll_seconds'' (PNum 10)) (\<lambda>b.
          bindE (py_int (parse_int env) b) (\<lambda>poll.
          bindE (py_get meta ''rotate_seconds'' (PNum 5)) (\<lambda>c.
          bindE (py_int (parse_int env) c) (\<lambda>rotate.
            case database env of
              Inl e \<Rightarrow> Inl e
            | Inr rows \<Rightarrow>
                Inr \<lparr>config = cfg, temp_offset = offset, poll_seconds = poll,
                     rotate_seconds = rotate, paused = False, latest = None,
                     latest_classes = None, sensor_logs = rows, conn_open = True,
                     stop_is_set = False, led = [], stdout = []\<rparr>)))))))))"

subsection \<open>The entry point\<close>

text \<open>
  The names the module binds at top level: its imports
  (\<open>import json, sqlite3, time, threading\<close>, \<open>from datetime import datetime\<close>,
  \<open>from sense_hat import SenseHat, ACTION_PRESSED\<close>), its constants, its classes and
  \<open>main\<close>. A name that is neither here nor a builtin raises \<open>NameError\<close> when it is read.
\<close>

definition module_globals :: "string list" where
  "module_globals =
     [''json'', ''sqlite3'', ''time'', ''threading'', ''datetime'', ''SenseHat'',
      ''ACTION_PRESSED'', ''DB_PATH'', ''CONFIG_PATH'', ''GREEN'', ''RED'', ''BLUE'', ''AMBER'',
      ''WHITE'', ''ConfigError'', ''SensorMonitor'', ''main'']"

text \<open>The exception the statement \<open>sys.exit(code)\<close> raises.\<close>

datatype raised = Exn exn | SystemExit int

definition sys_exit :: "int \<Rightarrow> raised" where
  "sys_exit code = (if ''sys'' \<in> set module_globals then SystemExit code else Exn (NameError ''sys''))"

text \<open>
  How the process ends: \<open>main\<close> returns, or an exception leaves it. The exit status of the
  interpreter is 0 in the first case, the argument of \<open>SystemExit\<close>, and 1 (after a
  traceback) for an uncaught exception that derives from \<open>Exception\<close>. How an uncaught
  \<open>KeyboardInterrupt\<close> ends the process depends on the interpreter's version (status 1, or
  death by the signal); the model gives it no status.
\<close>

datatype ending = Still_running | Returned | Uncaught raised

fun exit_status :: "ending \<Rightarrow> int option" where
  "exit_status Still_running = None"
| "exit_status Returned = Some 0"
| "exit_status (Uncaught (SystemExit code)) = Some code"
| "exit_status (Uncaught (Exn e)) = (if is_Exception e then Some 1 else None)"

text \<open>
  \<^verbatim>\<open>
  def main():
      try:
          monitor = SensorMonitor()
      except ConfigError as e:
          print(f"[CONFIG ERROR] {e}")
          sys.exit(2)
      except Exception as e:
          print(f"[STARTUP ERROR] {e}")
          sys.exit(1)

      try:
          monitor.run()
      except KeyboardInterrupt:
          print("\nExiting...")
          monitor.cleanup()
  \<close>
  The result is what was printed and how the process ended.
\<close>

definition main :: "startup_env \<Rightarrow> tick_env list \<Rightarrow> printed list \<times> ending" where
  "main env envs =
     (case init env of
        Inl (ConfigError e) \<Rightarrow> ([Print_config_error e], Uncaught (sys_exit 2))
      | Inl e \<Rightarrow>
          if is_Exception e then ([Print_startup_error e], Uncaught (sys_exit 1))
          else ([], Uncaught (Exn e))
      | Inr monitor \<Rightarrow>
          (case run monitor envs of
             (Raised KeyboardInterrupt, m) \<Rightarrow>
               (stdout (cleanup m) @ [Print_exiting], Returned)
           | (Raised e, m) \<Rightarrow> (stdout m, Uncaught (Exn e))
           | (Loop_exit, m) \<Rightarrow> (stdout m, Returned)
           | (Looping, m) \<Rightarrow> (stdout m, Still_running)))"

section \<open>The two loops and the joystick callback, interleaved\<close>

text \<open>
  \<open>run\<close> executes on the main thread, \<open>_display_loop\<close> on a daemon thread and
  \<open>_on_middle_pressed\<close> on the thread of the joystick; all three use the attributes of the
  one monitor object, and the module takes no lock. The interpreter runs one thread at a
  time and may switch between any two statements, so an execution is a sequence of steps,
  each a stretch of one thread that reads or writes the shared attributes at most once:
  \<^item> \<open>Sample\<close>: lines 191 to 193 of \<open>run\<close>, the test of \<open>paused\<close>, \<open>_read_sensors\<close> and
    \<open>_classify\<close>; \<open>Sensor_failure\<close> when a getter raises;
  \<^item> \<open>Assign_latest\<close> and \<open>Assign_classes\<close>: the two stores of
    \<open>self._latest, self._latest_classes = r, c\<close>, left target first;
  \<^item> \<open>Log\<close>: \<open>_log\<close>, the two prints and the sleep;
  \<^item> \<open>Joystick\<close>: one call of \<open>_on_middle_pressed\<close>;
  \<^item> \<open>Display_test\<close>: the tests of lines 165 and 166, and the sleep when line 166 fails;
  \<^item> \<open>Display_read_classes\<close>: lines 167 and 168, which read \<open>self._latest_classes\<close>;
  \<^item> \<open>Display_read_latest\<close>: lines 169 and 170, which read \<open>self._latest\<close>;
  \<^item> \<open>Display_show\<close>: lines 172 to 185.
  A thread that meets an exception ends. \<open>published\<close> records the pair of every assignment
  of line 194 and \<open>snapshots\<close> the pair (reading, labels) behind every message the display
  loop has shown; the loop itself keeps of the labels only the one under \<open>key\<close>.
\<close>

datatype sampler_pc =
    S_loop
  | S_assign reading classes
  | S_assign_classes reading classes
  | S_log reading classes
  | S_ended

datatype display_pc =
    D_loop
  | D_key
  | D_color classes
  | D_message reading classes
  | D_ended

record system =
  shared :: monitor
  sampler :: sampler_pc
  display :: display_pc
  mode_idx :: nat
  published :: "(reading \<times> classes) list"
  snapshots :: "(reading \<times> classes) list"

datatype thread_step =
    Sample raw
  | Sensor_failure exn
  | Assign_latest
  | Assign_classes
  | Log string "exn option"
  | Joystick input_event
  | Display_test
  | Display_read_classes
  | Display_read_latest
  | Display_show

fun exec :: "system \<Rightarrow> thread_step \<Rightarrow> system option" where
  "exec \<sigma> (Sample s) =
     (if sampler \<sigma> = S_loop \<and> \<not> stop_is_set (shared \<sigma>) \<and> \<not> paused (shared \<sigma>) then
        (case classify (config (shared \<sigma>)) (read_sensors (shared \<sigma>) s) of
           Inl e \<Rightarrow> Some (\<sigma>\<lparr>shared := cleanup (shared \<sigma>), sampler := S_ended\<rparr>)
         | Inr c \<Rightarrow> Some (\<sigma>\<lparr>sampler := S_assign (read_sensors (shared \<sigma>) s) c\<rparr>))
      else None)"
| "exec \<sigma> (Sensor_failure e) =
     (if sampler \<sigma> = S_loop \<and> \<not> stop_is_set (shared \<sigma>) \<and> \<not> paused (shared \<sigma>) then
        Some (\<sigma>\<lparr>shared := cleanup (shared \<sigma>), sampler := S_ended\<rparr>)
      else None)"
| "exec \<sigma> Assign_latest =
     (case sampler \<sigma> of
        S_assign r c \<Rightarrow>
          Some (\<sigma>\<lparr>shared := (shared \<sigma>)\<lparr>latest := Some r\<rparr>, sampler := S_assign_classes r c,
                 published := published \<sigma> @ [(r, c)]\<rparr>)
      | _ \<Rightarrow> None)"
| "exec \<sigma> Assign_classes =
     (case sampler \<sigma> of
        S_assign_classes r c \<Rightarrow>
          Some (\<sigma>\<lparr>shared := (shared \<sigma>)\<lparr>latest_classes := Some c\<rparr>, sampler := S_log r c\<rparr>)
      | _ \<Rightarrow> None)"
| "exec \<sigma> (Log now failure) =
     (case sampler \<sigma> of
        S_log r c \<Rightarrow>
          (case log_db (shared \<sigma>) r c now failure of
             Inl e \<Rightarrow> Some (\<sigma>\<lparr>shared := cleanup (shared \<sigma>), sampler := S_ended\<rparr>)
           | Inr m \<Rightarrow>
               Some (\<sigma>\<lparr>shared := m\<lparr>stdout := stdout m @
                          [Print_sensor_readings r, Print_classifications c]\<rparr>,
                      sampler := S_loop\<rparr>))
      | _ \<Rightarrow> None)"
| "exec \<sigma> (Joystick event) = Some (\<sigma>\<lparr>shared := on_middle_pressed (shared \<sigma>) event\<rparr>)"
| "exec \<sigma> Display_test =
     (if display \<sigma> = D_loop then
        (if stop_is_set (shared \<sigma>) then Some (\<sigma>\<lparr>display := D_ended\<rparr>)
         else if latest (shared \<sigma>) \<noteq> None \<and> latest_classes (shared \<sigma>) \<noteq> None
                 \<and> \<not> paused (shared \<sigma>)
         then Some (\<sigma>\<lparr>display := D_key\<rparr>)
         else Some \<sigma>)
      else None)"
| "exec \<sigma> Display_read_classes =
     (if display \<sigma> = D_key then
        (case latest_classes (shared \<sigma>) of
           None \<Rightarrow> Some (\<sigma>\<lparr>display := D_ended\<rparr>)
         | Some cs \<Rightarrow> Some (\<sigma>\<lparr>display := D_color cs\<rparr>))
      else None)"
| "exec \<sigma> Display_read_latest =
     (case display \<sigma> of
        D_color cs \<Rightarrow>
          (case latest (shared \<sigma>) of
             None \<Rightarrow> Some (\<sigma>\<lparr>display := D_ended\<rparr>)
           | Some r \<Rightarrow> Some (\<sigma>\<lparr>display := D_message r cs\<rparr>))
      | _ \<Rightarrow> None)"
| "exec \<sigma> Display_show =
     (case display \<sigma> of
        D_message r cs \<Rightarrow>
          (let key = modes ! (mode_idx \<sigma> mod length modes);
               col = color_for key (class_at cs key);
               msg = message_for key r
           in Some (\<sigma>\<lparr>shared := (shared \<sigma>)\<lparr>led := led (shared \<sigma>) @ [Show_message msg col]\<rparr>,
                     display := D_loop, mode_idx := mode_idx \<sigma> + 1,
                     snapshots := snapshots \<sigma> @ [(r, cs)]\<rparr>))
      | _ \<Rightarrow> None)"

fun interleave :: "system \<Rightarrow> thread_step list \<Rightarrow> system option" where
  "interleave \<sigma> [] = Some \<sigma>"
| "interleave \<sigma> (a # as) = (case exec \<sigma> a of None \<Rightarrow> None | Some \<sigma>' \<Rightarrow> interleave \<sigma>' as)"

definition start :: "monitor \<Rightarrow> system" where
  "start m = \<lparr>shared = m, sampler = S_loop, display = D_loop, mode_idx = 0,
              published = [], snapshots = []\<rparr>"

section \<open>The scalar classifiers of the non-threaded script (SensorMonitor.py)\<close>

text \<open>
  The script reads its thresholds into module globals when it is imported; the
  classifiers compare against them.
  \<^verbatim>\<open>
  min_temp = config['temperature']['min']
  max_temp = config['temperature']['max']
  min_humidity = config['humidity']['min']
  max_humidity = config['humidity']['max']
  min_pressure = config['pressure']['min']
  max_pressure = config['pressure']['max']
  orientation_ranges = config['orientation']
  \<close>
\<close>

record globals =
  min_temp :: pyval
  max_temp :: pyval
  min_humidity :: pyval
  max_humidity :: pyval
  min_pressure :: pyval
  max_pressure :: pyval
  orientation_ranges :: pyval

definition load_globals :: "pyval \<Rightarrow> exn + globals" where
  "load_globals doc =
     bindE (get2 doc ''temperature'' ''min'') (\<lambda>a.
     bindE (get2 doc ''temperature'' ''max'') (\<lambda>b.
     bindE (get2 doc ''humidity'' ''min'') (\<lambda>c.
     bindE (get2 doc ''humidity'' ''max'') (\<lambda>d.
     bindE (get2 doc ''pressure'' ''min'') (\<lambda>e.
     bindE (get2 doc ''pressure'' ''max'') (\<lambda>f.
     bindE (py_getitem doc ''orientation'') (\<lambda>g.
       Inr \<lparr>min_temp = a, max_temp = b, min_humidity = c, max_humidity = d,
            min_pressure = e, max_pressure = f, orientation_ranges = g\<rparr>)))))))"

text \<open>The chained comparison \<open>lo <= x <= hi\<close>: the second test runs only if the first holds.\<close>

definition chained_le :: "pyval \<Rightarrow> pyval \<Rightarrow> pyval \<Rightarrow> exn + bool" where
  "chained_le lo x hi = bindE (py_cmp Le lo x) (\<lambda>b. if b then py_cmp Le x hi else Inr False)"

text \<open>
  \<^verbatim>\<open>
  def classify_temperature(temp):
      if temp < min_temp:
          return "Low"
      elif min_temp <= temp <= max_temp:
          return "Comfortable"
      else:
          return "High"
  \<close>
  and the same body over the humidity and the pressure globals.
\<close>

definition classify_temperature :: "globals \<Rightarrow> pyval \<Rightarrow> exn + string" where
  "classify_temperature g temp =
     bindE (py_cmp Lt temp (min_temp g)) (\<lambda>low.
       if low then Inr ''Low''
       else bindE (chained_le (min_temp g) temp (max_temp g)) (\<lambda>mid.
         if mid then Inr ''Comfortable'' else Inr ''High''))"

definition classify_humidity :: "globals \<Rightarrow> pyval \<Rightarrow> exn + string" where
  "classify_humidity g humidity =
     bindE (py_cmp Lt humidity (min_humidity g)) (\<lambda>low.
       if low then Inr ''Low''
       else bindE (chained_le (min_humidity g) humidity (max_humidity g)) (\<lambda>mid.
         if mid then Inr ''Comfortable'' else Inr ''High''))"

definition classify_pressure :: "globals \<Rightarrow> pyval \<Rightarrow> exn + string" where
  "classify_pressure g pressure =
     bindE (py_cmp Lt pressure (min_pressure g)) (\<lambda>low.
       if low then Inr ''Low''
       else bindE (chained_le (min_pressure g) pressure (max_pressure g)) (\<lambda>mid.
         if mid then Inr ''Comfortable'' else Inr ''High''))"

text \<open>
  \<^verbatim>\<open>
  def classify_orientation(pitch, roll, yaw):
      if abs(pitch) > orientation_ranges['pitch'] or abs(roll) > orientation_ranges['roll'] or abs(yaw) > orientation_ranges['yaw']:
          return "Tilted"
      return "Aligned"
  \<close>
\<close>

definition exceeds :: "pyval \<Rightarrow> string \<Rightarrow> double \<Rightarrow> exn + bool" where
  "exceeds ranges axis x = bindE (py_getitem ranges axis) (\<lambda>limit. py_cmp Gt (to_py (fabs x)) limit)"

definition classify_orientation :: "globals \<Rightarrow> double \<Rightarrow> double \<Rightarrow> double \<Rightarrow> exn + string" where
  "classify_orientation g pitch roll yaw =
     bindE (exceeds (orientation_ranges g) ''pitch'' pitch) (\<lambda>a.
     bindE (if a then Inr True else exceeds (orientation_ranges g) ''roll'' roll) (\<lambda>b.
     bindE (if b then Inr True else exceeds (orientation_ranges g) ''yaw'' yaw) (\<lambda>c.
       Inr (if c then ''Tilted'' else ''Aligned''))))"

section \<open>Vocabulary of the statements\<close>

text \<open>
  A configuration gives the numeric range \<open>[lo, hi]\<close> to an environmental quantity, or to an
  orientation axis, when the lookups \<open>_classify\<close> performs return these two numbers.
\<close>

definition env_range :: "pyval \<Rightarrow> string \<Rightarrow> real \<Rightarrow> real \<Rightarrow> bool" where
  "env_range cfg name lo hi =
     (get2 cfg name ''min'' = Inr (PNum lo) \<and> get2 cfg name ''max'' = Inr (PNum hi))"

definition axis_range :: "pyval \<Rightarrow> string \<Rightarrow> real \<Rightarrow> real \<Rightarrow> bool" where
  "axis_range cfg axis lo hi =
     (get3 cfg ''orientation'' axis ''min'' = Inr (PNum lo)
      \<and> get3 cfg ''orientation'' axis ''max'' = Inr (PNum hi))"

text \<open>
  The configuration of the specification's scenarios, with the pitch range left open:
  temperature 18..26, humidity 30..60, pressure 990..1020, roll -10..10, yaw -180..180.
\<close>

definition range_obj :: "pyval \<Rightarrow> pyval \<Rightarrow> pyval" where
  "range_obj lo hi = PDict [(''min'', lo), (''max'', hi)]"

definition scenario_sections :: "pyval \<Rightarrow> (string \<times> pyval) list" where
  "scenario_sections pitch =
     [(''temperature'', range_obj (PNum 18) (PNum 26)),
      (''humidity'', range_obj (PNum 30) (PNum 60)),
      (''pressure'', range_obj (PNum 990) (PNum 1020)),
      (''orientation'', PDict
         [(''pitch'', pitch),
          (''roll'', range_obj (PNum (- 10)) (PNum 10)),
          (''yaw'', range_obj (PNum (- 180)) (PNum 180))])]"

definition config_with_pitch :: "pyval \<Rightarrow> pyval" where
  "config_with_pitch pitch = PDict (scenario_sections pitch)"

definition scenario_config :: pyval where
  "scenario_config = config_with_pitch (range_obj (PNum (- 10)) (PNum 10))"

text \<open>The same configuration as the loader returns it, with its empty \<open>meta\<close> section.\<close>

definition scenario_loaded :: pyval where
  "scenario_loaded =
     PDict (scenario_sections (range_obj (PNum (- 10)) (PNum 10)) @ [(''meta'', PDict [])])"

definition scenario_monitor :: monitor where
  "scenario_monitor =
     \<lparr>config = scenario_loaded, temp_offset = Finite (- 1.5), poll_seconds = 10,
      rotate_seconds = 5,
      paused = False, latest = None, latest_classes = None, sensor_logs = [], conn_open = True,
      stop_is_set = False, led = [], stdout = []\<rparr>"

text \<open>
  Sensor values and readings of the scenarios: the temperature is the float written
  \<open>t\<close>, the humidity is 65.0, the pressure 1000.0, the pitch 15.0, roll and yaw 0.0.
\<close>

definition scenario_raw :: "real \<Rightarrow> raw" where
  "scenario_raw t =
     \<lparr>raw_temperature = rnd t, raw_humidity = Finite 65, raw_pressure = Finite 1000,
      raw_pitch = Finite 15, raw_roll = Finite 0, raw_yaw = Finite 0\<rparr>"

definition scenario_env :: "real \<Rightarrow> exn option \<Rightarrow> tick_env" where
  "scenario_env t failure =
     \<lparr>sensor = Inr (scenario_raw t), db_failure = failure, utcnow = ''2024-01-01 00:00:00'',
      sleep_limit = 9223372036, stick = [], interrupt = False\<rparr>"

definition scenario_reading :: "real \<Rightarrow> reading" where
  "scenario_reading t =
     \<lparr>r_temperature = rnd t, r_humidity = Finite 65, r_pressure = Finite 1000,
      r_pitch = Finite 15, r_roll = Finite 0, r_yaw = Finite 0\<rparr>"

definition scenario_classes :: "string \<Rightarrow> classes" where
  "scenario_classes t =
     \<lparr>c_temperature = t, c_humidity = ''High'', c_pressure = ''Comfortable'',
      c_orientation = ''Tilted''\<rparr>"

text \<open>
  The globals of the non-threaded script after it has loaded the scenario configuration,
  and a reading inside every range of the scenario.
\<close>

definition scenario_orientation :: pyval where
  "scenario_orientation = PDict
     [(''pitch'', range_obj (PNum (- 10)) (PNum 10)),
      (''roll'', range_obj (PNum (- 10)) (PNum 10)),
      (''yaw'', range_obj (PNum (- 180)) (PNum 180))]"

definition scenario_globals :: globals where
  "scenario_globals =
     \<lparr>min_temp = PNum 18, max_temp = PNum 26, min_humidity = PNum 30, max_humidity = PNum 60,
      min_pressure = PNum 990, max_pressure = PNum 1020,
      orientation_ranges = scenario_orientation\<rparr>"

definition level_reading :: reading where
  "level_reading =
     \<lparr>r_temperature = Finite 22, r_humidity = Finite 45, r_pressure = Finite 1000,
      r_pitch = Finite 0, r_roll = Finite 0, r_yaw = Finite 0\<rparr>"

text \<open>Two pitch ranges whose bounds are not numbers.\<close>

definition strings_pitch :: pyval where
  "strings_pitch = range_obj (PStr ''a'') (PStr ''b'')"

definition mixed_pitch :: pyval where
  "mixed_pitch = range_obj (PStr ''low'') (PNum 10)"

text \<open>A start on the scenario configuration with an empty database.\<close>

definition scenario_startup :: startup_env where
  "scenario_startup =
     \<lparr>sense_hat_failure = None, config_file = Inr scenario_config,
      parse_float = (\<lambda>s. None), parse_int = (\<lambda>s. None), database = Inr []\<rparr>"

text \<open>A start with no configuration file.\<close>

definition missing_file_startup :: startup_env where
  "missing_file_startup =
     \<lparr>sense_hat_failure = None,
      config_file = Inl ''[Errno 2] No such file or directory'',
      parse_float = (\<lambda>s. None), parse_int = (\<lambda>s. None), database = Inr []\<rparr>"

definition disk_error :: exn where
  "disk_error = DatabaseError ''disk I/O error''"

text \<open>The number of press events in a sequence of joystick events.\<close>

definition presses :: "input_event list \<Rightarrow> nat" where
  "presses evs = length (filter (\<lambda>e. action e = ACTION_PRESSED) evs)"

text \<open>
  A snapshot is paired within the history of publish calls when its labels are those of
  some call and its reading that of the same or a later call.
\<close>

definition paired :: "(reading \<times> classes) list \<Rightarrow> reading \<Rightarrow> classes \<Rightarrow> bool" where
  "paired ps r cs = (\<exists>i j. i \<le> j \<and> j < length ps \<and> cs = snd (ps ! i) \<and> r = fst (ps ! j))"

definition pairing_inv :: "system \<Rightarrow> bool" where
  "pairing_inv \<sigma> =
     ((\<forall>r. latest (shared \<sigma>) = Some r \<longrightarrow>
          published \<sigma> \<noteq> [] \<and> r = fst (last (published \<sigma>)))
      \<and> (\<forall>cs. latest_classes (shared \<sigma>) = Some cs \<longrightarrow> (\<exists>r'. (r', cs) \<in> set (published \<sigma>)))
      \<and> (\<forall>r c. sampler \<sigma> = S_assign_classes r c \<longrightarrow> (\<exists>r'. (r', c) \<in> set (published \<sigma>)))
      \<and> (\<forall>cs. display \<sigma> = D_color cs \<longrightarrow> (\<exists>r'. (r', cs) \<in> set (published \<sigma>)))
      \<and> (\<forall>r cs. display \<sigma> = D_message r cs \<longrightarrow> paired (published \<sigma>) r cs)
      \<and> (\<forall>r cs. (r, cs) \<in> set (snapshots \<sigma>) \<longrightarrow> paired (published \<sigma>) r cs))"

text \<open>
  A schedule in which a whole publish falls between the two reads of the display loop:
  the first tick publishes and logs 25.8, the display loop reads the labels, the second
  tick publishes 30.0, the display loop reads the reading and shows it.
\<close>

definition race_schedule :: "thread_step list" where
  "race_schedule =
     [Sample (scenario_raw 27.3), Assign_latest, Assign_classes,
      Log ''2024-01-01 00:00:00'' None,
      Display_test, Display_read_classes,
      Sample (scenario_raw 31.5), Assign_latest, Assign_classes,
      Display_read_latest, Display_show]"

definition race_result :: system where
  "race_result =
     \<lparr>shared = scenario_monitor
        \<lparr>latest := Some (scenario_reading 30),
         latest_classes := Some (scenario_classes ''High''),
         sensor_logs := [(scenario_reading 25.8, scenario_classes ''Comfortable'',
                          ''2024-01-01 00:00:00'')],
         led := [Show_message (Msg_T (Finite 30)) GREEN],
         stdout := [Print_sensor_readings (scenario_reading 25.8),
                    Print_classifications (scenario_classes ''Comfortable'')]\<rparr>,
      sampler = S_log (scenario_reading 30) (scenario_classes ''High''),
      display = D_loop, mode_idx = 1,
      published = [(scenario_reading 25.8, scenario_classes ''Comfortable''),
                   (scenario_reading 30, scenario_classes ''High'')],
      snapshots = [(scenario_reading 30, scenario_classes ''Comfortable'')]\<rparr>"

section \<open>Properties\<close>

subsection \<open>Rounding\<close>

lemma round_half_even_near:
  "\<bar>of_int (round_half_even y) - y\<bar> \<le> 1 / 2"
  unfolding round_half_even_def Let_def by (auto simp add: abs_if) linarith+

lemma round_half_even_tie:
  "\<bar>of_int (round_half_even y) - y\<bar> = 1 / 2 \<Longrightarrow> even (round_half_even y)"
  unfolding round_half_even_def Let_def
  by (auto simp add: abs_if split: if_splits) linarith+

lemma pow2_powr: "pow2 e = 2 powr (real_of_int e)"
  by (simp add: pow2_def powr_int)

lemma binade_eq:
  assumes "pow2 e \<le> \<bar>x\<bar>" and "\<bar>x\<bar> < pow2 (e + 1)" and "- 1022 \<le> e"
  shows "binade x = e"
proof -
  have "0 < pow2 e" by (simp add: pow2_def)
  with assms(1) have pos: "0 < \<bar>x\<bar>" by linarith
  have "\<lfloor>log 2 \<bar>x\<bar>\<rfloor> = e"
    using assms(1) assms(2) pos by (simp add: floor_log_eq_powr_iff pow2_powr)
  with assms(3) show ?thesis by (simp add: binade_def)
qed

lemma rnd_in_binade:
  assumes "pow2 e \<le> \<bar>x\<bar>" and "\<bar>x\<bar> < pow2 (e + 1)" and "- 1022 \<le> e"
  shows "rnd x =
     (let u = pow2 (e - 52);
          q = of_int (round_half_even (x / u)) * u
      in if 2 ^ 1024 \<le> \<bar>q\<bar> then (if 0 < x then PlusInf else MinusInf) else Finite q)"
proof -
  have "0 < pow2 e" by (simp add: pow2_def)
  with assms(1) have "x \<noteq> 0" by auto
  then show ?thesis
    by (simp add: rnd_def binade_eq [OF assms])
qed

lemma rnd_values:
  "rnd 27.3 = Finite (7684266864200909 / 281474976710656)"
  "rnd 25.8 = Finite (7262054399134925 / 281474976710656)"
  "rnd (7684266864200909 / 281474976710656 - 3 / 2) = Finite (7262054399134925 / 281474976710656)"
  "rnd 31.5 = Finite 31.5"
  "rnd 30 = Finite 30"
  by (simp_all add: rnd_in_binade [where e = 4] pow2_def round_half_even_def Let_def)

lemma rnd_small_values:
  "rnd 65 = Finite 65" "rnd 1000 = Finite 1000" "rnd 15 = Finite 15" "rnd 0 = Finite 0"
  "rnd (- 1.5) = Finite (- 1.5)"
  "rnd (1 / 5) = Finite (3602879701896397 / 18014398509481984)"
proof -
  show "rnd 65 = Finite 65"
    by (simp add: rnd_in_binade [where e = 6] pow2_def round_half_even_def Let_def)
  show "rnd 1000 = Finite 1000"
    by (simp add: rnd_in_binade [where e = 9] pow2_def round_half_even_def Let_def)
  show "rnd 15 = Finite 15"
    by (simp add: rnd_in_binade [where e = 3] pow2_def round_half_even_def Let_def)
  show "rnd 0 = Finite 0"
    by (simp add: rnd_def)
  show "rnd (- 1.5) = Finite (- 1.5)"
    by (simp add: rnd_in_binade [where e = 0] pow2_def round_half_even_def Let_def)
  show "rnd (1 / 5) = Finite (3602879701896397 / 18014398509481984)"
    by (simp add: rnd_in_binade [where e = "- 3"] pow2_def round_half_even_def Let_def)
qed

subsection \<open>Bucket classification\<close>

lemma bucket_num:
  "bucket (PNum v) (PNum lo) (PNum hi) =
     Inr (if v < lo then ''Low'' else if v > hi then ''High'' else ''Comfortable'')"
  by (simp add: bucket_def bindE_def)

text \<open>
  Claim C1. The two tests of \<open>_bucket\<close> run in order. For thresholds with \<open>lo \<le> hi\<close>, as
  every range of a validated configuration has them (\<open>min < max\<close>), a value is \<open>Low\<close> iff
  it is below \<open>lo\<close>, \<open>High\<close> iff it is above \<open>hi\<close> and \<open>Comfortable\<close> otherwise; both
  boundary values are \<open>Comfortable\<close>.
\<close>

theorem bucket_inclusive_range:
  assumes "lo \<le> hi"
  shows "(bucket (PNum v) (PNum lo) (PNum hi) = Inr ''Low'') = (v < lo)
       \<and> (bucket (PNum v) (PNum lo) (PNum hi) = Inr ''High'') = (v > hi)
       \<and> (bucket (PNum v) (PNum lo) (PNum hi) = Inr ''Comfortable'') = (lo \<le> v \<and> v \<le> hi)
       \<and> bucket (PNum lo) (PNum lo) (PNum hi) = Inr ''Comfortable''
       \<and> bucket (PNum hi) (PNum lo) (PNum hi) = Inr ''Comfortable''"
  using assms by (auto simp add: bucket_num)

theorem bucket_inclusive_range_witness:
  "(18::real) \<le> 26
   \<and> (bucket (PNum 17.9) (PNum 18) (PNum 26) = Inr ''Low'') = ((17.9::real) < 18)
   \<and> (bucket (PNum 17.9) (PNum 18) (PNum 26) = Inr ''High'') = ((17.9::real) > 26)
   \<and> (bucket (PNum 17.9) (PNum 18) (PNum 26) = Inr ''Comfortable'')
       = ((18::real) \<le> 17.9 \<and> (17.9::real) \<le> 26)
   \<and> bucket (PNum 18) (PNum 18) (PNum 26) = Inr ''Comfortable''
   \<and> bucket (PNum 26) (PNum 18) (PNum 26) = Inr ''Comfortable''"
proof -
  have h: "(18::real) \<le> 26" by simp
  show ?thesis using h bucket_inclusive_range [OF h, of "17.9"] by simp
qed

subsection \<open>The two variants on scalar readings\<close>

text \<open>
  The chain \<open>if v < lo ... elif lo <= v <= hi ... else\<close> of the script and the two tests of
  \<open>_bucket\<close> give the same label, or raise the same exception, for every value but NaN.
\<close>

lemma scalar_chain_eq_bucket:
  assumes "v \<noteq> PNaN"
  shows "bindE (py_cmp Lt v (PNum lo)) (\<lambda>low.
       if low then Inr ''Low''
       else bindE (chained_le (PNum lo) v (PNum hi)) (\<lambda>mid.
         if mid then Inr ''Comfortable'' else Inr ''High''))
     = bucket v (PNum lo) (PNum hi)"
proof (cases v)
  case (PNum x)
  then show ?thesis by (simp add: bucket_def chained_le_def bindE_def)
next
  case (PBool b)
  then show ?thesis by (simp add: bucket_def chained_le_def bindE_def)
next
  case (PInf positive)
  then show ?thesis by (simp add: bucket_def chained_le_def bindE_def)
next
  case PNaN
  with assms show ?thesis by simp
next
  case PNone
  then show ?thesis by (simp add: bucket_def chained_le_def bindE_def)
next
  case (PStr s)
  then show ?thesis by (simp add: bucket_def chained_le_def bindE_def)
next
  case (PList xs)
  then show ?thesis by (cases xs) (simp_all add: bucket_def chained_le_def bindE_def)
next
  case (PDict kvs)
  then show ?thesis by (simp add: bucket_def chained_le_def bindE_def)
qed

text \<open>
  Claim C10, as the code has it. When the globals of the non-threaded script hold a valid
  numeric pair \<open>min < max\<close>, each of its three scalar classifiers returns, for every value
  other than NaN, the label \<open>_bucket\<close> returns for the same value and the same pair (and
  raises \<open>TypeError\<close> where \<open>_bucket\<close> does).
\<close>

theorem scalar_classifiers_agree_with_bucket:
  assumes "tlo < thi" and "hlo < hhi" and "plo < phi"
    and "g = \<lparr>min_temp = PNum tlo, max_temp = PNum thi,
               min_humidity = PNum hlo, max_humidity = PNum hhi,
               min_pressure = PNum plo, max_pressure = PNum phi,
               orientation_ranges = ori\<rparr>"
    and "v \<noteq> PNaN"
  shows "classify_temperature g v = bucket v (PNum tlo) (PNum thi)
       \<and> classify_humidity g v = bucket v (PNum hlo) (PNum hhi)
       \<and> classify_pressure g v = bucket v (PNum plo) (PNum phi)"
proof -
  have sel: "min_temp g = PNum tlo" "max_temp g = PNum thi"
    "min_humidity g = PNum hlo" "max_humidity g = PNum hhi"
    "min_pressure g = PNum plo" "max_pressure g = PNum phi"
    using assms(4) by simp_all
  show ?thesis
    unfolding classify_temperature_def classify_humidity_def classify_pressure_def sel
    by (intro conjI scalar_chain_eq_bucket [OF assms(5)])
qed

theorem scalar_classifiers_agree_with_bucket_witness:
  "(18::real) < 26 \<and> (30::real) < 60 \<and> (990::real) < 1020 \<and> PNum 65 \<noteq> PNaN
   \<and> classify_temperature scenario_globals (PNum 65) = bucket (PNum 65) (PNum 18) (PNum 26)
   \<and> classify_humidity scenario_globals (PNum 65) = bucket (PNum 65) (PNum 30) (PNum 60)
   \<and> classify_pressure scenario_globals (PNum 65) = bucket (PNum 65) (PNum 990) (PNum 1020)
   \<and> classify_humidity scenario_globals (PNum 65) = Inr ''High''"
proof -
  have t: "(18::real) < 26" and h: "(30::real) < 60" and p: "(990::real) < 1020"
    and n: "PNum 65 \<noteq> PNaN"
    by simp_all
  have g: "scenario_globals = \<lparr>min_temp = PNum 18, max_temp = PNum 26,
               min_humidity = PNum 30, max_humidity = PNum 60,
               min_pressure = PNum 990, max_pressure = PNum 1020,
               orientation_ranges = scenario_orientation\<rparr>"
    by (simp add: scenario_globals_def)
  show ?thesis
    using t h p n scalar_classifiers_agree_with_bucket [OF t h p g n]
    by (simp add: bucket_num)
qed

text \<open>
  Every comparison with NaN is false. The script falls through \<open>v < min\<close> and
  \<open>min <= v <= max\<close> to its \<open>else\<close> branch, \<open>High\<close>; \<open>_bucket\<close> falls through \<open>v < lo\<close> and
  \<open>v > hi\<close> to \<open>Comfortable\<close>.
\<close>

theorem scalar_classifiers_nan_counterexample:
  "classify_temperature scenario_globals PNaN = Inr ''High''
   \<and> bucket PNaN (PNum 18) (PNum 26) = Inr ''Comfortable''"
  by (simp add: classify_temperature_def scenario_globals_def bucket_def chained_le_def bindE_def)

subsection \<open>Classification against a numeric configuration\<close>

lemma bucket_of_num:
  "env_range cfg name lo hi \<Longrightarrow>
   bucket_of cfg name (Finite x) =
     Inr (if x < lo then ''Low'' else if x > hi then ''High'' else ''Comfortable'')"
  by (simp add: env_range_def bucket_of_def bindE_def bucket_num)

lemma axis_within_num:
  "axis_range cfg axis lo hi \<Longrightarrow> axis_within cfg axis (Finite x) = Inr (lo \<le> x \<and> x \<le> hi)"
  by (auto simp add: axis_range_def axis_within_def bindE_def)

lemma aligned_num:
  assumes "axis_range cfg ''pitch'' plo phi" and "axis_range cfg ''roll'' rlo rhi"
    and "axis_range cfg ''yaw'' ylo yhi"
    and "r_pitch r = Finite p" and "r_roll r = Finite q" and "r_yaw r = Finite y"
  shows "aligned cfg r =
     Inr (plo \<le> p \<and> p \<le> phi \<and> rlo \<le> q \<and> q \<le> rhi \<and> ylo \<le> y \<and> y \<le> yhi)"
  using assms by (auto simp add: aligned_def axis_within_num bindE_def)

lemma classify_num:
  assumes "env_range cfg ''temperature'' tlo thi" and "env_range cfg ''humidity'' hlo hhi"
    and "env_range cfg ''pressure'' qlo qhi"
    and "axis_range cfg ''pitch'' plo phi" and "axis_range cfg ''roll'' rlo rhi"
    and "axis_range cfg ''yaw'' ylo yhi"
  shows "classify cfg
           \<lparr>r_temperature = Finite t, r_humidity = Finite h, r_pressure = Finite b,
            r_pitch = Finite p, r_roll = Finite q, r_yaw = Finite y\<rparr> =
     Inr \<lparr>c_temperature = (if t < tlo then ''Low'' else if t > thi then ''High''
                             else ''Comfortable''),
          c_humidity = (if h < hlo then ''Low'' else if h > hhi then ''High''
                        else ''Comfortable''),
          c_pressure = (if b < qlo then ''Low'' else if b > qhi then ''High''
                        else ''Comfortable''),
          c_orientation =
            (if plo \<le> p \<and> p \<le> phi \<and> rlo \<le> q \<and> q \<le> rhi \<and> ylo \<le> y \<and> y \<le> yhi
             then ''Aligned'' else ''Tilted'')\<rparr>"
  by (simp add: classify_def bucket_of_num [OF assms(1)] bucket_of_num [OF assms(2)]
      bucket_of_num [OF assms(3)] aligned_num [OF assms(4) assms(5) assms(6)] bindE_def)

lemma scenario_ranges:
  "env_range scenario_loaded ''temperature'' 18 26"
  "env_range scenario_loaded ''humidity'' 30 60"
  "env_range scenario_loaded ''pressure'' 990 1020"
  "axis_range scenario_loaded ''pitch'' (- 10) 10"
  "axis_range scenario_loaded ''roll'' (- 10) 10"
  "axis_range scenario_loaded ''yaw'' (- 180) 180"
  by (simp_all add: env_range_def axis_range_def scenario_loaded_def scenario_sections_def
      range_obj_def get2_def get3_def bindE_def)

lemma scenario_classify:
  "classify scenario_loaded
           \<lparr>r_temperature = Finite t, r_humidity = Finite h, r_pressure = Finite b,
            r_pitch = Finite p, r_roll = Finite q, r_yaw = Finite y\<rparr> =
     Inr \<lparr>c_temperature = (if t < 18 then ''Low'' else if t > 26 then ''High''
                             else ''Comfortable''),
          c_humidity = (if h < 30 then ''Low'' else if h > 60 then ''High''
                        else ''Comfortable''),
          c_pressure = (if b < 990 then ''Low'' else if b > 1020 then ''High''
                        else ''Comfortable''),
          c_orientation =
            (if - 10 \<le> p \<and> p \<le> 10 \<and> - 10 \<le> q \<and> q \<le> 10 \<and> - 180 \<le> y \<and> y \<le> 180
             then ''Aligned'' else ''Tilted'')\<rparr>"
  by (rule classify_num [OF scenario_ranges])

lemma scenario_labels:
  "classify scenario_loaded (scenario_reading 25.8) = Inr (scenario_classes ''Comfortable'')"
  "classify scenario_loaded (scenario_reading 30) = Inr (scenario_classes ''High'')"
  using rnd_values
  by (simp_all add: scenario_classify scenario_reading_def scenario_classes_def)

text \<open>
  Against a configuration that gives every axis a numeric pair \<open>(min, max)\<close>, \<open>_classify\<close>
  of the threaded monitor returns, and its orientation label is \<open>Aligned\<close> iff pitch, roll
  and yaw all lie in their inclusive interval.
\<close>

lemma orientation_aligned_iff_all_axes_within:
  assumes "axis_range cfg ''pitch'' plo phi" and "axis_range cfg ''roll'' rlo rhi"
    and "axis_range cfg ''yaw'' ylo yhi"
    and "env_range cfg ''temperature'' tlo thi" and "env_range cfg ''humidity'' hlo hhi"
    and "env_range cfg ''pressure'' qlo qhi"
    and "r = \<lparr>r_temperature = Finite t, r_humidity = Finite h, r_pressure = Finite b,
            r_pitch = Finite p, r_roll = Finite q, r_yaw = Finite y\<rparr>"
  shows "\<exists>c. classify cfg r = Inr c
           \<and> (c_orientation c = ''Aligned'') =
               (plo \<le> p \<and> p \<le> phi \<and> rlo \<le> q \<and> q \<le> rhi \<and> ylo \<le> y \<and> y \<le> yhi)
           \<and> (c_orientation c = ''Tilted'') =
               (p < plo \<or> phi < p \<or> q < rlo \<or> rhi < q \<or> y < ylo \<or> yhi < y)"
  unfolding assms(7)
  by (auto simp add:
      classify_num [OF assms(4) assms(5) assms(6) assms(1) assms(2) assms(3)])

text \<open>
  The non-threaded script compares \<open>abs\<close> of each angle with \<open>orientation_ranges[axis]\<close>
  itself. Where that is one number per axis, with limits \<open>P\<close>, \<open>R\<close>, \<open>Y\<close>, the script is
  \<open>Aligned\<close> exactly on the symmetric intervals \<open>[-P, P]\<close>, \<open>[-R, R]\<close>, \<open>[-Y, Y]\<close>. Where it
  is a \<open>{min, max}\<close> object the comparison of a float with a dict raises \<open>TypeError\<close>.
\<close>

lemma num_of_to_py: "num_of (to_py d) = Some d"
  by (cases d) simp_all

lemma exceeds_min_max_object:
  "map_of kvs axis = Some (PDict sec) \<Longrightarrow> exceeds (PDict kvs) axis x = Inl TypeError"
  by (simp add: exceeds_def bindE_def num_of_to_py)

lemma classify_orientation_min_max_objects:
  assumes "orientation_ranges g = PDict kvs" and "map_of kvs ''pitch'' = Some (PDict sec)"
  shows "classify_orientation g pitch roll yaw = Inl TypeError"
  using assms by (simp add: classify_orientation_def exceeds_min_max_object bindE_def)

lemma classify_orientation_scalar_limits:
  assumes "orientation_ranges g = PDict [(''pitch'', PNum P), (''roll'', PNum R), (''yaw'', PNum Y)]"
  shows "classify_orientation g (Finite pitch) (Finite roll) (Finite yaw) =
     Inr (if - P \<le> pitch \<and> pitch \<le> P \<and> - R \<le> roll \<and> roll \<le> R \<and> - Y \<le> yaw \<and> yaw \<le> Y
          then ''Aligned'' else ''Tilted'')"
  using assms by (auto simp add: classify_orientation_def exceeds_def bindE_def)

text \<open>
  Claim C2 at its failing input. The script loads the scenario configuration, whose
  orientation section gives a \<open>(min, max)\<close> pair per axis, and \<open>classify_orientation\<close> then
  raises \<open>TypeError\<close> on a reading with pitch, roll and yaw all 0, inside every interval;
  \<open>_classify\<close> of the threaded monitor labels the same reading \<open>Aligned\<close>.
\<close>

theorem classify_orientation_raises_on_min_max_ranges:
  "load_globals scenario_config = Inr scenario_globals
   \<and> classify_orientation scenario_globals (Finite 0) (Finite 0) (Finite 0) = Inl TypeError
   \<and> classify scenario_loaded level_reading =
       Inr \<lparr>c_temperature = ''Comfortable'', c_humidity = ''Comfortable'',
            c_pressure = ''Comfortable'', c_orientation = ''Aligned''\<rparr>"
proof -
  have g: "load_globals scenario_config = Inr scenario_globals"
    by (simp add: load_globals_def scenario_config_def config_with_pitch_def
        scenario_sections_def scenario_globals_def scenario_orientation_def range_obj_def
        get2_def bindE_def)
  have o: "classify_orientation scenario_globals (Finite 0) (Finite 0) (Finite 0) = Inl TypeError"
    by (simp add: classify_orientation_def exceeds_def scenario_globals_def
        scenario_orientation_def range_obj_def bindE_def)
  have c: "classify scenario_loaded level_reading =
       Inr \<lparr>c_temperature = ''Comfortable'', c_humidity = ''Comfortable'',
            c_pressure = ''Comfortable'', c_orientation = ''Aligned''\<rparr>"
    by (simp add: level_reading_def scenario_classify)
  from g o c show ?thesis by simp
qed

subsection \<open>Configuration validation\<close>

lemma check_env_range_missing:
  "map_of kvs name = None \<Longrightarrow>
   check_env_range (PDict kvs) name = Inl (ConfigError (Must_have_min_and_max name))"
  by (simp add: check_env_range_def bindE_def)

text \<open>
  For temperature, humidity and pressure every defect the specification lists is a
  \<open>ConfigError\<close>: a missing bound, a bound that is not a number, \<open>min >= max\<close>.
\<close>

lemma check_env_range_dict:
  assumes "map_of kvs name = Some (PDict sec)"
  shows "check_env_range (PDict kvs) name =
     (case map_of sec ''min'' of
        None \<Rightarrow> Inl (ConfigError (Must_have_min_and_max name))
      | Some lo \<Rightarrow>
         (case map_of sec ''max'' of
            None \<Rightarrow> Inl (ConfigError (Must_have_min_and_max name))
          | Some hi \<Rightarrow>
             (case num_of lo of
                None \<Rightarrow> Inl (ConfigError (Invalid_range name))
              | Some a \<Rightarrow>
                 (case num_of hi of
                    None \<Rightarrow> Inl (ConfigError (Invalid_range name))
                  | Some b \<Rightarrow>
                      if dcmp Ge a b then Inl (ConfigError (Invalid_range name)) else Inr ()))))"
  using assms
  apply (simp add: check_env_range_def bindE_def get2_def is_int_or_float_def
      split: option.splits)
  apply (auto elim!: num_of.elims)
  done

lemma load_accepts_scenario_config:
  "load_and_validate_config CONFIG_PATH (Inr scenario_config) = Inr scenario_loaded"
  by (simp add: load_and_validate_config_def scenario_config_def scenario_loaded_def
      scenario_sections_def config_with_pitch_def
      range_obj_def get2_def bindE_def check_env_range_def is_int_or_float_def)

lemma load_rejects_inverted_pitch:
  "load_and_validate_config CONFIG_PATH
     (Inr (config_with_pitch (range_obj (PNum 10) (PNum (- 10)))))
   = Inl (ConfigError (Invalid_orientation_range ''pitch''))"
  by (simp add: load_and_validate_config_def config_with_pitch_def scenario_sections_def range_obj_def
      get2_def bindE_def check_env_range_def is_int_or_float_def)

text \<open>
  Claim C3 at its failing inputs. The loop over the orientation axes has no \<open>isinstance\<close>
  test: a pitch range with the string bounds \<open>"a"\<close> and \<open>"b"\<close> is accepted (the strings
  compare, and \<open>"a" >= "b"\<close> is false), and one with the bounds \<open>"low"\<close> and 10 leaves the
  loader with \<open>TypeError\<close>, which is not a \<open>ConfigError\<close>. The accepted configuration then
  makes every call of \<open>_classify\<close> raise \<open>TypeError\<close>.
\<close>

theorem load_accepts_non_numeric_orientation_bounds:
  "load_and_validate_config CONFIG_PATH (Inr (config_with_pitch strings_pitch))
     = Inr (PDict
        [(''temperature'', range_obj (PNum 18) (PNum 26)),
         (''humidity'', range_obj (PNum 30) (PNum 60)),
         (''pressure'', range_obj (PNum 990) (PNum 1020)),
         (''orientation'', PDict
            [(''pitch'', range_obj (PStr ''a'') (PStr ''b'')),
             (''roll'', range_obj (PNum (- 10)) (PNum 10)),
             (''yaw'', range_obj (PNum (- 180)) (PNum 180))]),
         (''meta'', PDict [])])
   \<and> load_and_validate_config CONFIG_PATH (Inr (config_with_pitch mixed_pitch)) = Inl TypeError
   \<and> classify (config_with_pitch strings_pitch) (scenario_reading 25.8) = Inl TypeError"
  using rnd_values
  by (simp add: load_and_validate_config_def config_with_pitch_def scenario_sections_def strings_pitch_def
      mixed_pitch_def range_obj_def get2_def get3_def bindE_def check_env_range_def
      is_int_or_float_def classify_def bucket_of_def aligned_def axis_within_def bucket_num
      scenario_reading_def)

subsection \<open>A sampling tick\<close>

lemma sample_publishes:
  assumes "\<not> paused m" and "sensor env = Inr s"
    and "classify (config m) (read_sensors m s) = Inr c"
  shows "sample m env =
     (case db_failure env of
        Some e \<Rightarrow> (Some e, m\<lparr>latest := Some (read_sensors m s), latest_classes := Some c\<rparr>)
      | None \<Rightarrow>
          (None, m\<lparr>latest := Some (read_sensors m s), latest_classes := Some c,
                   sensor_logs := sensor_logs m @ [(read_sensors m s, c, utcnow env)],
                   stdout := stdout m @ [Print_sensor_readings (read_sensors m s),
                                         Print_classifications c]\<rparr>))"
  using assms by (simp add: sample_def log_db_def Let_def split: option.splits)

lemma scenario_read_sensors:
  "read_sensors scenario_monitor (scenario_raw 27.3) = scenario_reading 25.8"
  "read_sensors scenario_monitor (scenario_raw 31.5) = scenario_reading 30"
  using rnd_values rnd_small_values
  by (simp_all add: read_sensors_def scenario_monitor_def scenario_raw_def scenario_reading_def
      round_half_even_def)

text \<open>
  Readings where the order of adding and rounding shows. The float nearest to 27.34 less
  1.5 is stored as 25.8 (the raw value alone rounds to 27.3). With the raw value
  \<open>0.25 - 2 ** -55\<close> the float sum is exactly -1.25, a tie, stored as -1.2; the sum of the
  two reals lies below the tie.
\<close>

lemma read_sensors_adds_then_rounds:
  "r_temperature (read_sensors scenario_monitor (scenario_raw 27.34)) = rnd 25.8"
  "r_temperature (read_sensors scenario_monitor
      ((scenario_raw 0)\<lparr>raw_temperature := Finite (1 / 4 - 1 / 2 ^ 55)\<rparr>)) = rnd (- 1.2)"
proof -
  have a: "rnd 27.34 = Finite (7695525863269335 / 281474976710656)"
    by (simp add: rnd_in_binade [where e = 4] pow2_def round_half_even_def Let_def)
  have b: "rnd (7695525863269335 / 281474976710656 - 3 / 2)
      = Finite (7273313398203351 / 281474976710656)"
    by (simp add: rnd_in_binade [where e = 4] pow2_def round_half_even_def Let_def)
  show "r_temperature (read_sensors scenario_monitor (scenario_raw 27.34)) = rnd 25.8"
    using a b by (simp add: read_sensors_def scenario_monitor_def scenario_raw_def
        round_half_even_def)
  have c: "rnd (1 / 4 - 1 / 2 ^ 55 - 3 / 2) = Finite (- 5 / 4)"
    by (simp add: rnd_in_binade [where e = 0] pow2_def round_half_even_def Let_def)
  show "r_temperature (read_sensors scenario_monitor
      ((scenario_raw 0)\<lparr>raw_temperature := Finite (1 / 4 - 1 / 2 ^ 55)\<rparr>)) = rnd (- 1.2)"
    using c by (simp add: read_sensors_def scenario_monitor_def scenario_raw_def
        round_half_even_def)
qed

lemma py_round1_nearest_tenth:
  "\<exists>k. py_round1 (Finite t) = rnd (of_int k / 10)
     \<and> \<bar>of_int k / 10 - t\<bar> \<le> 1 / 20
     \<and> (\<bar>of_int k / 10 - t\<bar> = 1 / 20 \<longrightarrow> even k)"
proof -
  define k where "k = round_half_even (t * 10)"
  have n: "\<bar>of_int k - t * 10\<bar> \<le> 1 / 2"
    unfolding k_def by (rule round_half_even_near)
  have d: "\<bar>of_int k / 10 - t\<bar> = \<bar>of_int k - t * 10\<bar> / 10"
    by (simp add: abs_if field_simps)
  have "\<bar>of_int k / 10 - t\<bar> \<le> 1 / 20"
    using n by (simp add: d)
  moreover have "\<bar>of_int k / 10 - t\<bar> = 1 / 20 \<longrightarrow> even k"
  proof
    assume "\<bar>of_int k / 10 - t\<bar> = 1 / 20"
    then have "\<bar>of_int k - t * 10\<bar> = 1 / 2" by (simp add: d)
    then show "even k" unfolding k_def by (rule round_half_even_tie)
  qed
  moreover have "py_round1 (Finite t) = rnd (of_int k / 10)"
    by (simp add: k_def)
  ultimately show ?thesis by blast
qed

text \<open>
  Claim C4. On a tick that is not paused, with the sensors read and the reading
  classified, the reading is published and, unless the database call fails, logged. Its
  temperature is the float sum of the raw temperature and the offset, rounded afterwards:
  when the sum is the finite value \<open>t\<close> the stored temperature is the float nearest to
  \<open>k / 10\<close>, where \<open>k / 10\<close> is the multiple of one tenth nearest to \<open>t\<close> and \<open>k\<close> is even on a
  tie; a sum that is not finite is stored as it is. With the range 18..26, the offset -1.5
  and the raw temperature 27.3 the stored temperature is 25.8 and its label \<open>Comfortable\<close>.
\<close>

theorem calibration_offset_applied_before_rounding:
  assumes "\<not> paused m" and "sensor env = Inr s"
    and "classify (config m) (read_sensors m s) = Inr c"
  shows "latest (snd (sample m env)) = Some (read_sensors m s)
       \<and> latest_classes (snd (sample m env)) = Some c
       \<and> (db_failure env = None \<longrightarrow>
            sensor_logs (snd (sample m env)) =
              sensor_logs m @ [(read_sensors m s, c, utcnow env)])
       \<and> (\<forall>t. fadd (raw_temperature s) (temp_offset m) = Finite t \<longrightarrow>
            (\<exists>k. r_temperature (read_sensors m s) = rnd (of_int k / 10)
               \<and> \<bar>of_int k / 10 - t\<bar> \<le> 1 / 20
               \<and> (\<bar>of_int k / 10 - t\<bar> = 1 / 20 \<longrightarrow> even k)))
       \<and> ((\<forall>t. fadd (raw_temperature s) (temp_offset m) \<noteq> Finite t) \<longrightarrow>
            r_temperature (read_sensors m s) = fadd (raw_temperature s) (temp_offset m))
       \<and> (env_range (config m) ''temperature'' 18 26 \<and> temp_offset m = Finite (- 1.5)
            \<and> raw_temperature s = rnd 27.3 \<longrightarrow>
            r_temperature (read_sensors m s) = rnd 25.8 \<and> c_temperature c = ''Comfortable'')"
proof -
  have stored: "latest (snd (sample m env)) = Some (read_sensors m s)
       \<and> latest_classes (snd (sample m env)) = Some c"
    by (simp add: sample_publishes [OF assms] split: option.splits)
  have logged: "db_failure env = None \<longrightarrow>
            sensor_logs (snd (sample m env)) =
              sensor_logs m @ [(read_sensors m s, c, utcnow env)]"
    by (simp add: sample_publishes [OF assms])
  have temp: "r_temperature (read_sensors m s)
      = py_round1 (fadd (raw_temperature s) (temp_offset m))"
    by (simp add: read_sensors_def)
  have finite: "\<forall>t. fadd (raw_temperature s) (temp_offset m) = Finite t \<longrightarrow>
            (\<exists>k. r_temperature (read_sensors m s) = rnd (of_int k / 10)
               \<and> \<bar>of_int k / 10 - t\<bar> \<le> 1 / 20
               \<and> (\<bar>of_int k / 10 - t\<bar> = 1 / 20 \<longrightarrow> even k))"
  proof (intro allI impI)
    fix t
    assume "fadd (raw_temperature s) (temp_offset m) = Finite t"
    then have "r_temperature (read_sensors m s) = py_round1 (Finite t)"
      by (simp add: temp)
    with py_round1_nearest_tenth [of t]
    show "\<exists>k. r_temperature (read_sensors m s) = rnd (of_int k / 10)
               \<and> \<bar>of_int k / 10 - t\<bar> \<le> 1 / 20
               \<and> (\<bar>of_int k / 10 - t\<bar> = 1 / 20 \<longrightarrow> even k)"
      by simp
  qed
  have other: "(\<forall>t. fadd (raw_temperature s) (temp_offset m) \<noteq> Finite t) \<longrightarrow>
            r_temperature (read_sensors m s) = fadd (raw_temperature s) (temp_offset m)"
    unfolding temp by (cases "fadd (raw_temperature s) (temp_offset m)") simp_all
  have scenario: "env_range (config m) ''temperature'' 18 26 \<and> temp_offset m = Finite (- 1.5)
            \<and> raw_temperature s = rnd 27.3 \<longrightarrow>
            r_temperature (read_sensors m s) = rnd 25.8 \<and> c_temperature c = ''Comfortable''"
  proof (intro impI, elim conjE)
    assume rng: "env_range (config m) ''temperature'' 18 26"
      and off: "temp_offset m = Finite (- 1.5)" and rawt: "raw_temperature s = rnd 27.3"
    have t: "r_temperature (read_sensors m s) = rnd 25.8"
      using rnd_values by (simp add: temp off rawt round_half_even_def)
    from assms(3) obtain lbl where
      b: "bucket_of (config m) ''temperature'' (r_temperature (read_sensors m s)) = Inr lbl"
      and l: "c_temperature c = lbl"
      by (auto simp add: classify_def bindE_def split: sum.splits)
    from b have "lbl = ''Comfortable''"
      using rnd_values by (simp add: bucket_of_num [OF rng] t)
    with t l show "r_temperature (read_sensors m s) = rnd 25.8 \<and> c_temperature c = ''Comfortable''"
      by simp
  qed
  from stored logged finite other scenario show ?thesis by blast
qed

theorem calibration_offset_applied_before_rounding_witness:
  "\<not> paused scenario_monitor
   \<and> sensor (scenario_env 27.3 None) = Inr (scenario_raw 27.3)
   \<and> classify (config scenario_monitor) (scenario_reading 25.8)
       = Inr (scenario_classes ''Comfortable'')
   \<and> env_range (config scenario_monitor) ''temperature'' 18 26
   \<and> temp_offset scenario_monitor = Finite (- 1.5)
   \<and> raw_temperature (scenario_raw 27.3) = rnd 27.3
   \<and> db_failure (scenario_env 27.3 None) = None
   \<and> fadd (raw_temperature (scenario_raw 27.3)) (temp_offset scenario_monitor)
       = Finite (7262054399134925 / 281474976710656)
   \<and> latest (snd (sample scenario_monitor (scenario_env 27.3 None)))
       = Some (scenario_reading 25.8)
   \<and> latest_classes (snd (sample scenario_monitor (scenario_env 27.3 None)))
       = Some (scenario_classes ''Comfortable'')
   \<and> sensor_logs (snd (sample scenario_monitor (scenario_env 27.3 None)))
       = [(scenario_reading 25.8, scenario_classes ''Comfortable'', ''2024-01-01 00:00:00'')]
   \<and> r_temperature (scenario_reading 25.8) = rnd 25.8
   \<and> c_temperature (scenario_classes ''Comfortable'') = ''Comfortable''"
proof -
  have p: "\<not> paused scenario_monitor" by (simp add: scenario_monitor_def)
  have s: "sensor (scenario_env 27.3 None) = Inr (scenario_raw 27.3)"
    by (simp add: scenario_env_def)
  have c: "classify (config scenario_monitor)
             (read_sensors scenario_monitor (scenario_raw 27.3))
       = Inr (scenario_classes ''Comfortable'')"
    using scenario_labels(1)
    by (simp add: scenario_read_sensors(1)) (simp add: scenario_monitor_def)
  have rng: "env_range (config scenario_monitor) ''temperature'' 18 26"
    by (simp add: scenario_monitor_def scenario_ranges)
  have off: "temp_offset scenario_monitor = Finite (- 1.5)" by (simp add: scenario_monitor_def)
  have sum: "fadd (raw_temperature (scenario_raw 27.3)) (temp_offset scenario_monitor)
       = Finite (7262054399134925 / 281474976710656)"
    using rnd_values by (simp add: scenario_raw_def scenario_monitor_def)
  show ?thesis
    using calibration_offset_applied_before_rounding [OF p s c] p s c rng off sum
    by (simp add: scenario_read_sensors(1))
       (simp add: scenario_env_def scenario_monitor_def scenario_raw_def scenario_reading_def
          scenario_classes_def)
qed

subsection \<open>A failing database call\<close>

lemma init_scenario: "init scenario_startup = Inr scenario_monitor"
  using rnd_small_values
  by (simp add: init_def scenario_startup_def load_accepts_scenario_config bindE_def
      scenario_loaded_def scenario_sections_def scenario_monitor_def)

lemma run_loop_db_failure:
  assumes "\<not> stop_is_set m" and "\<not> paused m" and "sensor env = Inr s"
    and "classify (config m) (read_sensors m s) = Inr c" and "db_failure env = Some e"
  shows "run_loop m (env # rest) =
     (Raised e, m\<lparr>latest := Some (read_sensors m s), latest_classes := Some c\<rparr>)"
  using assms by (simp add: sample_publishes [OF assms(2) assms(3) assms(4)])

lemma scenario_db_failure:
  "\<not> stop_is_set scenario_monitor" "\<not> paused scenario_monitor"
  "sensor (scenario_env 27.3 (Some disk_error)) = Inr (scenario_raw 27.3)"
  "classify (config scenario_monitor) (read_sensors scenario_monitor (scenario_raw 27.3))
     = Inr (scenario_classes ''Comfortable'')"
  "db_failure (scenario_env 27.3 (Some disk_error)) = Some disk_error"
  using scenario_labels(1)
  by (simp_all add: scenario_read_sensors(1)) (simp_all add: scenario_monitor_def scenario_env_def)

text \<open>
  Claim C5, as the code has it. Nothing catches the exception of \<open>_log\<close>: when the database
  call of a tick fails, the sample of that tick has been published but is not logged,
  \<open>run\<close> leaves its loop through \<open>cleanup\<close> whatever ticks would follow, and the exception
  leaves \<open>main\<close>, so the process ends with status 1.
\<close>

theorem persistence_failure_ends_monitoring:
  assumes "\<not> stop_is_set m" and "\<not> paused m" and "sensor env = Inr s"
    and "classify (config m) (read_sensors m s) = Inr c" and "db_failure env = Some e"
  shows "run m (env # rest) =
           (Raised e, cleanup (m\<lparr>latest := Some (read_sensors m s), latest_classes := Some c\<rparr>))
       \<and> sensor_logs (snd (run m (env # rest))) = sensor_logs m
       \<and> stop_is_set (snd (run m (env # rest)))
       \<and> (init senv = Inr m \<and> is_Exception e \<longrightarrow>
            main senv (env # rest) = (stdout m, Uncaught (Exn e))
            \<and> exit_status (snd (main senv (env # rest))) = Some 1)"
proof -
  have r: "run m (env # rest) =
           (Raised e, cleanup (m\<lparr>latest := Some (read_sensors m s), latest_classes := Some c\<rparr>))"
    by (simp add: run_def run_loop_db_failure [OF assms] del: run_loop.simps)
  have l: "sensor_logs (snd (run m (env # rest))) = sensor_logs m"
    by (simp add: r cleanup_def)
  have st: "stop_is_set (snd (run m (env # rest)))"
    by (simp add: r cleanup_def)
  have mn: "init senv = Inr m \<and> is_Exception e \<longrightarrow>
            main senv (env # rest) = (stdout m, Uncaught (Exn e))
            \<and> exit_status (snd (main senv (env # rest))) = Some 1"
  proof (intro impI, elim conjE)
    assume i: "init senv = Inr m" and x: "is_Exception e"
    from x have "main senv (env # rest) = (stdout m, Uncaught (Exn e))"
      by (cases e) (simp_all add: main_def i r cleanup_def)
    with x show "main senv (env # rest) = (stdout m, Uncaught (Exn e))
            \<and> exit_status (snd (main senv (env # rest))) = Some 1"
      by simp
  qed
  from r l st mn show ?thesis by blast
qed

theorem persistence_failure_ends_monitoring_witness:
  "\<not> stop_is_set scenario_monitor \<and> \<not> paused scenario_monitor
   \<and> sensor (scenario_env 27.3 (Some disk_error)) = Inr (scenario_raw 27.3)
   \<and> classify (config scenario_monitor) (scenario_reading 25.8)
       = Inr (scenario_classes ''Comfortable'')
   \<and> db_failure (scenario_env 27.3 (Some disk_error)) = Some disk_error
   \<and> init scenario_startup = Inr scenario_monitor \<and> is_Exception disk_error
   \<and> run scenario_monitor [scenario_env 27.3 (Some disk_error), scenario_env 31.5 None] =
       (Raised disk_error,
        cleanup (scenario_monitor\<lparr>latest := Some (scenario_reading 25.8),
                   latest_classes := Some (scenario_classes ''Comfortable'')\<rparr>))
   \<and> main scenario_startup [scenario_env 27.3 (Some disk_error), scenario_env 31.5 None]
       = ([], Uncaught (Exn disk_error))"
  using persistence_failure_ends_monitoring [OF scenario_db_failure,
      where rest = "[scenario_env 31.5 None]" and senv = scenario_startup]
    scenario_db_failure init_scenario
  by (simp add: scenario_read_sensors(1)) (simp add: disk_error_def scenario_monitor_def)

text \<open>
  The database call of the first tick fails; the second tick would read 31.5 and publish
  30.0. It never runs: the shared state keeps the sample of the first tick, nothing is
  logged, and the exception leaves \<open>main\<close>.
\<close>

theorem persistence_failure_counterexample:
  "run scenario_monitor [scenario_env 27.3 (Some disk_error), scenario_env 31.5 None] =
       (Raised disk_error,
        cleanup (scenario_monitor\<lparr>latest := Some (scenario_reading 25.8),
                   latest_classes := Some (scenario_classes ''Comfortable'')\<rparr>))
   \<and> read_sensors scenario_monitor (scenario_raw 31.5) = scenario_reading 30
   \<and> latest (snd (run scenario_monitor
         [scenario_env 27.3 (Some disk_error), scenario_env 31.5 None]))
       \<noteq> Some (scenario_reading 30)
   \<and> sensor_logs (snd (run scenario_monitor
         [scenario_env 27.3 (Some disk_error), scenario_env 31.5 None])) = []
   \<and> snd (main scenario_startup
         [scenario_env 27.3 (Some disk_error), scenario_env 31.5 None])
       = Uncaught (Exn disk_error)"
proof -
  have r: "run scenario_monitor [scenario_env 27.3 (Some disk_error), scenario_env 31.5 None] =
       (Raised disk_error,
        cleanup (scenario_monitor\<lparr>latest := Some (scenario_reading 25.8),
                   latest_classes := Some (scenario_classes ''Comfortable'')\<rparr>))"
    using scenario_db_failure(4)
    by (simp add: run_def run_loop_db_failure [OF scenario_db_failure] scenario_read_sensors(1)
        del: run_loop.simps)
  have m: "snd (main scenario_startup
         [scenario_env 27.3 (Some disk_error), scenario_env 31.5 None])
       = Uncaught (Exn disk_error)"
    using r by (simp add: main_def init_scenario disk_error_def)
  have d: "scenario_reading 25.8 \<noteq> scenario_reading 30"
    using rnd_values by (simp add: scenario_reading_def)
  show ?thesis
    using r m d scenario_read_sensors(2)
    by (simp add: cleanup_def scenario_monitor_def)
qed

subsection \<open>Exit status\<close>

lemma main_config_error:
  "init env = Inl (ConfigError e) \<Longrightarrow>
   main env envs = ([Print_config_error e], Uncaught (Exn (NameError ''sys'')))"
  by (simp add: main_def sys_exit_def module_globals_def)

lemma main_startup_error:
  "init env = Inl e \<Longrightarrow> is_Exception e \<Longrightarrow> \<forall>c. e \<noteq> ConfigError c \<Longrightarrow>
   main env envs = ([Print_startup_error e], Uncaught (Exn (NameError ''sys'')))"
  by (cases e) (simp_all add: main_def sys_exit_def module_globals_def)

lemma main_interrupt:
  "init env = Inr m \<Longrightarrow> run m envs = (Raised KeyboardInterrupt, m') \<Longrightarrow>
   main env envs = (stdout m' @ [Print_exiting], Returned)
   \<and> exit_status (snd (main env envs)) = Some 0"
  by (simp add: main_def cleanup_def)

text \<open>
  Claim C6 at its failing input. The module never imports \<open>sys\<close>, so \<open>sys.exit(2)\<close> in the
  handler of \<open>ConfigError\<close> raises \<open>NameError\<close>: the tagged message is printed, then the
  process ends on an uncaught exception, with status 1 and not 2.
\<close>

theorem config_error_exits_with_status_1:
  "main missing_file_startup envs =
     ([Print_config_error
         (Cannot_read_config CONFIG_PATH ''[Errno 2] No such file or directory'')],
      Uncaught (Exn (NameError ''sys'')))
   \<and> exit_status (snd (main missing_file_startup envs)) = Some 1"
  by (simp add: main_def init_def missing_file_startup_def load_and_validate_config_def
      bindE_def sys_exit_def module_globals_def)

subsection \<open>Pause toggling\<close>

lemma on_middle_pressed_paused:
  "paused (on_middle_pressed m e) = (if action e = ACTION_PRESSED then \<not> paused m else paused m)"
  by (simp add: on_middle_pressed_def Let_def)

lemma on_middle_pressed_led_length:
  "length (led (on_middle_pressed m e)) =
     length (led m) + (if action e = ACTION_PRESSED then 1 else 0)"
  by (simp add: on_middle_pressed_def Let_def)

lemma foldl_paused:
  "paused (foldl on_middle_pressed m evs) = (paused m \<noteq> odd (presses evs))"
  by (induction evs arbitrary: m) (auto simp add: presses_def on_middle_pressed_paused)

lemma foldl_led_length:
  "length (led (foldl on_middle_pressed m evs)) = length (led m) + presses evs"
  by (induction evs arbitrary: m) (auto simp add: presses_def on_middle_pressed_led_length)

text \<open>
  Claim C7. Over any sequence of joystick events the pause flag ends flipped once per
  press event (it differs from its start iff the number of presses is odd) and one
  acknowledgment is shown per press; one press flips the flag, two presses restore it, and
  a release or a held event leaves the monitor as it was.
\<close>

theorem pause_toggles_once_per_press:
  "paused (foldl on_middle_pressed m evs) = (paused m \<noteq> odd (presses evs))
   \<and> length (led (foldl on_middle_pressed m evs)) = length (led m) + presses evs
   \<and> paused (on_middle_pressed m \<lparr>direction = d, action = ACTION_PRESSED\<rparr>) = (\<not> paused m)
   \<and> paused (on_middle_pressed (on_middle_pressed m \<lparr>direction = d, action = ACTION_PRESSED\<rparr>)
        \<lparr>direction = d', action = ACTION_PRESSED\<rparr>) = paused m
   \<and> on_middle_pressed m \<lparr>direction = d, action = ACTION_RELEASED\<rparr> = m
   \<and> on_middle_pressed m \<lparr>direction = d, action = ACTION_HELD\<rparr> = m"
  by (simp add: foldl_paused foldl_led_length on_middle_pressed_paused)
     (simp add: on_middle_pressed_def)

subsection \<open>Display cadence\<close>














subsection \<open>Snapshots under interleaving\<close>

lemma paired_append: "paired ps r cs \<Longrightarrow> paired (ps @ [p]) r cs"
  unfolding paired_def
  by (metis (no_types, lifting) le_less_trans length_append_singleton less_Suc_eq nth_append)

lemma paired_last:
  assumes "(r', cs) \<in> set ps"
  shows "paired ps (fst (last ps)) cs"
proof -
  from assms obtain i where i: "i < length ps" and c: "cs = snd (ps ! i)"
    by (auto simp add: in_set_conv_nth)
  then have ne: "ps \<noteq> []" by auto
  have "i \<le> length ps - 1" using i by simp
  moreover have "length ps - 1 < length ps" using ne by simp
  moreover have "fst (last ps) = fst (ps ! (length ps - 1))"
    using ne by (simp add: last_conv_nth)
  ultimately show ?thesis
    unfolding paired_def using c by blast
qed

lemma pairing_inv_start:
  "latest m = None \<Longrightarrow> latest_classes m = None \<Longrightarrow> pairing_inv (start m)"
  by (simp add: pairing_inv_def start_def)

lemma on_middle_pressed_latest:
  "latest (on_middle_pressed m e) = latest m"
  "latest_classes (on_middle_pressed m e) = latest_classes m"
  by (simp_all add: on_middle_pressed_def Let_def)

lemma exec_pairing_inv:
  assumes "pairing_inv \<sigma>" and "exec \<sigma> a = Some \<sigma>'"
  shows "pairing_inv \<sigma>'"
proof (cases a)
  case (Sample s)
  with assms show ?thesis
    by (auto simp add: pairing_inv_def cleanup_def split: if_splits sum.splits)
next
  case (Sensor_failure e)
  with assms show ?thesis
    by (auto simp add: pairing_inv_def cleanup_def split: if_splits)
next
  case Assign_latest
  with assms show ?thesis
    by (auto simp add: pairing_inv_def paired_append split: sampler_pc.splits)
next
  case Assign_classes
  with assms show ?thesis
    by (auto simp add: pairing_inv_def split: sampler_pc.splits)
next
  case (Log now failure)
  with assms show ?thesis
    by (auto simp add: pairing_inv_def cleanup_def log_db_def
        split: sampler_pc.splits option.splits)
next
  case (Joystick event)
  with assms show ?thesis
    by (auto simp add: pairing_inv_def on_middle_pressed_latest)
next
  case Display_test
  with assms show ?thesis
    by (auto simp add: pairing_inv_def split: if_splits)
next
  case Display_read_classes
  with assms show ?thesis
    by (auto simp add: pairing_inv_def split: if_splits option.splits)
next
  case Display_read_latest
  with assms show ?thesis
    by (auto simp add: pairing_inv_def paired_last split: display_pc.splits option.splits)
next
  case Display_show
  with assms show ?thesis
    by (auto simp add: pairing_inv_def Let_def split: display_pc.splits)
qed

lemma interleave_pairing_inv:
  "pairing_inv \<sigma> \<Longrightarrow> interleave \<sigma> sched = Some \<sigma>' \<Longrightarrow> pairing_inv \<sigma>'"
proof (induction sched arbitrary: \<sigma>)
  case Nil
  then show ?case by simp
next
  case (Cons a sched)
  then show ?case
    by (auto split: option.splits dest: exec_pairing_inv)
qed

lemma read_sensors_frame:
  "read_sensors (m\<lparr>latest := a\<rparr>) s = read_sensors m s"
  "read_sensors (m\<lparr>latest_classes := b\<rparr>) s = read_sensors m s"
  "read_sensors (m\<lparr>sensor_logs := c\<rparr>) s = read_sensors m s"
  "read_sensors (m\<lparr>stdout := d\<rparr>) s = read_sensors m s"
  "read_sensors (m\<lparr>led := e\<rparr>) s = read_sensors m s"
  by (simp_all add: read_sensors_def)

lemma scenario_monitor_fields:
  "config scenario_monitor = scenario_loaded"
  "\<not> paused scenario_monitor" "\<not> stop_is_set scenario_monitor"
  "latest scenario_monitor = None" "latest_classes scenario_monitor = None"
  "sensor_logs scenario_monitor = []" "led scenario_monitor = []" "stdout scenario_monitor = []"
  by (simp_all add: scenario_monitor_def)

lemma race: "interleave (start scenario_monitor) race_schedule = Some race_result"
  using scenario_labels scenario_read_sensors rnd_values(5)
  by (simp add: race_schedule_def race_result_def start_def read_sensors_frame log_db_def
      scenario_monitor_fields modes_def message_for_def color_for_def class_at_def GREEN_def
      scenario_reading_def scenario_classes_def)

text \<open>
  Claim C9, as the code has it. The pair is written by two stores and read by two
  statements, with no lock. In every interleaving, each snapshot of the display loop
  pairs the labels of some publish call with the reading of the same or a later call:
  the labels are read first, and \<open>_latest\<close> is stored before \<open>_latest_classes\<close>.
\<close>

theorem snapshot_pairs_labels_with_same_or_later_reading:
  assumes "latest m = None" and "latest_classes m = None"
    and "interleave (start m) sched = Some \<sigma>"
  shows "\<forall>r cs. (r, cs) \<in> set (snapshots \<sigma>) \<longrightarrow> paired (published \<sigma>) r cs"
proof -
  have "pairing_inv (start m)"
    by (rule pairing_inv_start [OF assms(1) assms(2)])
  then have "pairing_inv \<sigma>"
    by (rule interleave_pairing_inv [OF _ assms(3)])
  then show ?thesis
    by (simp add: pairing_inv_def)
qed

theorem snapshot_pairs_labels_with_same_or_later_reading_witness:
  "latest scenario_monitor = None \<and> latest_classes scenario_monitor = None
   \<and> interleave (start scenario_monitor) race_schedule = Some race_result
   \<and> (scenario_reading 30, scenario_classes ''Comfortable'') \<in> set (snapshots race_result)
   \<and> paired (published race_result) (scenario_reading 30) (scenario_classes ''Comfortable'')"
proof -
  have s: "(scenario_reading 30, scenario_classes ''Comfortable'') \<in> set (snapshots race_result)"
    by (simp add: race_result_def)
  show ?thesis
    using snapshot_pairs_labels_with_same_or_later_reading
      [OF scenario_monitor_fields(4) scenario_monitor_fields(5) race] s race
    by (simp add: scenario_monitor_fields)
qed

text \<open>
  In the schedule above the display loop reads the labels of the first tick (25.8,
  \<open>Comfortable\<close>) and then the reading of the second (30.0, whose own label is \<open>High\<close>): it
  shows the temperature 30.0 in green, a pair that no publish call wrote.
\<close>

theorem snapshot_pairing_counterexample:
  "interleave (start scenario_monitor) race_schedule = Some race_result
   \<and> (scenario_reading 30, scenario_classes ''Comfortable'') \<in> set (snapshots race_result)
   \<and> (scenario_reading 30, scenario_classes ''Comfortable'') \<notin> set (published race_result)
   \<and> classify (config scenario_monitor) (scenario_reading 30) = Inr (scenario_classes ''High'')
   \<and> led (shared race_result) = [Show_message (Msg_T (Finite 30)) GREEN]"
proof -
  have "(scenario_reading 30, scenario_classes ''Comfortable'') \<notin> set (published race_result)"
    using rnd_values by (simp add: race_result_def scenario_reading_def scenario_classes_def)
  moreover have "classify (config scenario_monitor) (scenario_reading 30)
      = Inr (scenario_classes ''High'')"
    using scenario_labels(2) by (simp add: scenario_monitor_fields)
  moreover have "(scenario_reading 30, scenario_classes ''Comfortable'')
      \<in> set (snapshots race_result)"
    by (simp add: race_result_def)
  moreover have "led (shared race_result) = [Show_message (Msg_T (Finite 30)) GREEN]"
    by (simp add: race_result_def)
  ultimately show ?thesis
    using race by simp
qed

end
